theory Spec2Isabelle
  imports Main "HOL-Library.Multiset"
begin

section \<open>JavaScript strings and values\<close>

text \<open>
  A JavaScript string is a sequence of UTF-16 code units. The model uses \<^typ>\<open>string\<close>,
  whose characters are read as the code units U+0000 to U+00FF (ASCII and Latin-1): lengths,
  \<open>substring\<close> and regular expressions then count what the source counts. Strings with code
  units beyond U+00FF are outside the model.
\<close>

definition LF :: char where "LF = CHR 0x0A"
definition CR :: char where "CR = CHR 0x0D"
definition DQ :: char where "DQ = CHR 0x22"

definition digits :: string where "digits = ''0123456789''"
definition lowers :: string where "lowers = ''abcdefghijklmnopqrstuvwxyz''"
definition uppers :: string where "uppers = ''ABCDEFGHIJKLMNOPQRSTUVWXYZ''"

text \<open>The Latin-1 letters that have their other case in the range: U+00C0 to U+00DE without
  the multiplication sign U+00D7, and U+00E0 to U+00FE without the division sign U+00F7.\<close>

definition latin1_uppers :: string where
  "latin1_uppers =
     [CHR 0xC0, CHR 0xC1, CHR 0xC2, CHR 0xC3, CHR 0xC4, CHR 0xC5, CHR 0xC6, CHR 0xC7,
      CHR 0xC8, CHR 0xC9, CHR 0xCA, CHR 0xCB, CHR 0xCC, CHR 0xCD, CHR 0xCE, CHR 0xCF,
      CHR 0xD0, CHR 0xD1, CHR 0xD2, CHR 0xD3, CHR 0xD4, CHR 0xD5, CHR 0xD6, CHR 0xD8,
      CHR 0xD9, CHR 0xDA, CHR 0xDB, CHR 0xDC, CHR 0xDD, CHR 0xDE]"

definition latin1_lowers :: string where
  "latin1_lowers =
     [CHR 0xE0, CHR 0xE1, CHR 0xE2, CHR 0xE3, CHR 0xE4, CHR 0xE5, CHR 0xE6, CHR 0xE7,
      CHR 0xE8, CHR 0xE9, CHR 0xEA, CHR 0xEB, CHR 0xEC, CHR 0xED, CHR 0xEE, CHR 0xEF,
      CHR 0xF0, CHR 0xF1, CHR 0xF2, CHR 0xF3, CHR 0xF4, CHR 0xF5, CHR 0xF6, CHR 0xF8,
      CHR 0xF9, CHR 0xFA, CHR 0xFB, CHR 0xFC, CHR 0xFD, CHR 0xFE]"

text \<open>\<open>String.prototype.toLowerCase\<close>, one code unit at a time: every character of the
  range has a lower case of one code unit in the range.\<close>

definition toLowerCase_char :: "char \<Rightarrow> char" where
  "toLowerCase_char c =
     (case map_of (zip (uppers @ latin1_uppers) (lowers @ latin1_lowers)) c of
        Some l \<Rightarrow> l
      | None \<Rightarrow> c)"

definition toLowerCase :: "string \<Rightarrow> string" where
  "toLowerCase s = map toLowerCase_char s"

text \<open>The inverse direction, used only to compare characters under the \<open>i\<close> flag.\<close>

definition toUpperCase_char :: "char \<Rightarrow> char" where
  "toUpperCase_char c =
     (case map_of (zip (lowers @ latin1_lowers) (uppers @ latin1_uppers)) c of
        Some u \<Rightarrow> u
      | None \<Rightarrow> c)"

section \<open>Regular expressions\<close>

text \<open>
  The fragment of ECMAScript regular expressions that the sources use: character classes,
  greedy quantifiers on a single character class, sequence, alternation, capture groups and the
  assertions \<open>^\<close> and \<open>$\<close>. Matching is the backtracking search of the language definition:
  \<open>rx_run\<close> lists every way a pattern can match at a position, in the order in which the
  engine tries them, so that the head of the list is the match the engine returns.
\<close>

datatype cclass =
    CChar char                \<comment> \<open>a literal character\<close>
  | COneOf string             \<comment> \<open>one of the listed characters; a range \<open>a-z\<close> is listed in full\<close>
  | CDigit                    \<comment> \<open>a decimal digit\<close>
  | CSpace                    \<comment> \<open>white space\<close>
  | CDot                      \<comment> \<open>\<open>.\<close>: anything but a line terminator\<close>
  | CSet "cclass list"        \<comment> \<open>\<open>[...]\<close>\<close>
  | CNot "cclass list"        \<comment> \<open>\<open>[^...]\<close>\<close>

definition isLineTerminator :: "char \<Rightarrow> bool" where
  "isLineTerminator c = (c = LF \<or> c = CR)"

text \<open>White space of the range: tab, line feed, vertical tab, form feed, carriage return,
  space and the no-break space U+00A0.\<close>

definition isWhiteSpace :: "char \<Rightarrow> bool" where
  "isWhiteSpace c =
     (c \<in> set [CHR 0x09, CHR 0x0A, CHR 0x0B, CHR 0x0C, CHR 0x0D, CHR 0x20, CHR 0xA0])"

fun cc_ok :: "cclass \<Rightarrow> char \<Rightarrow> bool" where
  "cc_ok (CChar a) c = (c = a)"
| "cc_ok (COneOf s) c = (c \<in> set s)"
| "cc_ok CDigit c = (c \<in> set digits)"
| "cc_ok CSpace c = isWhiteSpace c"
| "cc_ok CDot c = (\<not> isLineTerminator c)"
| "cc_ok (CSet cs) c = (\<exists>x \<in> set cs. cc_ok x c)"
| "cc_ok (CNot cs) c = (\<not> (\<exists>x \<in> set cs. cc_ok x c))"

datatype rx =
    Atom cclass
  | Rep cclass nat "nat option"   \<comment> \<open>greedy \<open>{lo,hi}\<close>; \<open>None\<close> is no upper bound\<close>
  | Seq rx rx
  | Alt rx rx
  | Grp nat rx                    \<comment> \<open>capture group with its number\<close>
  | Bol                           \<comment> \<open>\<open>^\<close>\<close>
  | Eol                           \<comment> \<open>\<open>$\<close>\<close>
  | Eps

text \<open>
  Under the \<open>i\<close> flag a character belongs to a class when some member of the class has
  the same canonical form; within the range of the model that is the member itself or its other
  case. The flag is therefore applied to the pattern: every listed character is joined by its
  other case (digits, white space and the dot have none), and a negated class is negated
  afterwards.
\<close>

fun fold_cc :: "cclass \<Rightarrow> cclass" where
  "fold_cc (CChar a) = COneOf [a, toLowerCase_char a, toUpperCase_char a]"
| "fold_cc (COneOf s) = COneOf (s @ map toLowerCase_char s @ map toUpperCase_char s)"
| "fold_cc (CSet cs) = CSet (map fold_cc cs)"
| "fold_cc (CNot cs) = CNot (map fold_cc cs)"
| "fold_cc cl = cl"

fun fold_case :: "rx \<Rightarrow> rx" where
  "fold_case (Atom cl) = Atom (fold_cc cl)"
| "fold_case (Rep cl lo hi) = Rep (fold_cc cl) lo hi"
| "fold_case (Seq a b) = Seq (fold_case a) (fold_case b)"
| "fold_case (Alt a b) = Alt (fold_case a) (fold_case b)"
| "fold_case (Grp i a) = Grp i (fold_case a)"
| "fold_case r = r"

record rx_flags =
  ignoreCase :: bool
  multiline :: bool

text \<open>A position in the subject: the characters before it (nearest first), the characters
  after it, and the captures made so far.\<close>

type_synonym rx_state = "string \<times> string \<times> (nat \<times> string) list"

definition rep_counts :: "nat \<Rightarrow> nat option \<Rightarrow> nat \<Rightarrow> nat list" where
  "rep_counts lo hi avail =
     (let top = (case hi of None \<Rightarrow> avail | Some h \<Rightarrow> min h avail)
      in rev [lo ..< Suc top])"

text \<open>The first argument is the \<open>m\<close> flag.\<close>

fun rx_run :: "bool \<Rightarrow> rx \<Rightarrow> rx_state \<Rightarrow> rx_state list" where
  "rx_run ml (Atom cl) (pre, rest, caps) =
     (case rest of
        [] \<Rightarrow> []
      | c # cs \<Rightarrow> if cc_ok cl c then [(c # pre, cs, caps)] else [])"
| "rx_run ml (Rep cl lo hi) (pre, rest, caps) =
     map (\<lambda>k. (rev (take k rest) @ pre, drop k rest, caps))
       (rep_counts lo hi (length (takeWhile (cc_ok cl) rest)))"
| "rx_run ml (Seq a b) st = concat (map (rx_run ml b) (rx_run ml a st))"
| "rx_run ml (Alt a b) st = rx_run ml a st @ rx_run ml b st"
| "rx_run ml (Grp i a) (pre, rest, caps) =
     map (\<lambda>(pre', rest', caps').
            (pre', rest', (i, rev (take (length pre' - length pre) pre')) # caps'))
       (rx_run ml a (pre, rest, caps))"
| "rx_run ml Bol (pre, rest, caps) =
     (case pre of
        [] \<Rightarrow> [(pre, rest, caps)]
      | c # _ \<Rightarrow> if ml \<and> isLineTerminator c then [(pre, rest, caps)] else [])"
| "rx_run ml Eol (pre, rest, caps) =
     (case rest of
        [] \<Rightarrow> [(pre, rest, caps)]
      | c # _ \<Rightarrow> if ml \<and> isLineTerminator c then [(pre, rest, caps)] else [])"
| "rx_run ml Eps st = [st]"

text \<open>The result of \<open>RegExp.prototype.exec\<close>: the matched text and the captures.\<close>

record rx_match =
  matched :: string
  groups :: "(nat \<times> string) list"

text \<open>\<open>str.match(re)\<close> for a pattern without the \<open>g\<close> flag: the leftmost position at which
  the pattern matches, and there the first match in backtracking order.\<close>

fun rx_exec_from :: "bool \<Rightarrow> rx \<Rightarrow> string \<Rightarrow> string \<Rightarrow> rx_match option" where
  "rx_exec_from ml r pre [] =
     (case rx_run ml r (pre, [], []) of
        (pre', rest', caps) # _ \<Rightarrow>
          Some \<lparr>matched = rev (take (length pre' - length pre) pre'), groups = caps\<rparr>
      | [] \<Rightarrow> None)"
| "rx_exec_from ml r pre (c # cs) =
     (case rx_run ml r (pre, c # cs, []) of
        (pre', rest', caps) # _ \<Rightarrow>
          Some \<lparr>matched = rev (take (length pre' - length pre) pre'), groups = caps\<rparr>
      | [] \<Rightarrow> rx_exec_from ml r (c # pre) cs)"

definition match :: "string \<Rightarrow> rx_flags \<Rightarrow> rx \<Rightarrow> rx_match option" where
  "match s f r = rx_exec_from (multiline f) (if ignoreCase f then fold_case r else r) [] s"

text \<open>\<open>m[i]\<close> on a match: \<open>None\<close> stands for \<open>undefined\<close> (the group took no part).\<close>

definition group :: "rx_match \<Rightarrow> nat \<Rightarrow> string option" where
  "group m i = map_of (groups m) i"

subsection \<open>Writing patterns\<close>

fun seqs :: "rx list \<Rightarrow> rx" where
  "seqs [] = Eps"
| "seqs [r] = r"
| "seqs (r # rs) = Seq r (seqs rs)"

fun alts :: "rx list \<Rightarrow> rx" where
  "alts [] = Eps"
| "alts [r] = r"
| "alts (r # rs) = Alt r (alts rs)"

definition lit :: "string \<Rightarrow> rx" where
  "lit s = seqs (map (\<lambda>c. Atom (CChar c)) s)"

definition opt :: "cclass \<Rightarrow> rx" where "opt cl = Rep cl 0 (Some 1)"
definition many :: "cclass \<Rightarrow> rx" where "many cl = Rep cl 0 None"
definition many1 :: "cclass \<Rightarrow> rx" where "many1 cl = Rep cl 1 None"
definition exactly :: "nat \<Rightarrow> cclass \<Rightarrow> rx" where "exactly n cl = Rep cl n (Some n)"

definition flags_none :: rx_flags where
  "flags_none = \<lparr>ignoreCase = False, multiline = False\<rparr>"
definition flags_i :: rx_flags where
  "flags_i = \<lparr>ignoreCase = True, multiline = False\<rparr>"
definition flags_m :: rx_flags where
  "flags_m = \<lparr>ignoreCase = False, multiline = True\<rparr>"

section \<open>Values, objects and the runtime\<close>

text \<open>
  The values that cross the service boundary are JSON values. Numbers are IEEE doubles in
  the source; the model leaves their type \<open>'n\<close> open and takes what the program does with a
  number (its truth value, its decimal text, \<open>parseFloat\<close>, \<open>isNaN\<close>) from the runtime.
  An object is the list of its own properties in enumeration order.
\<close>

datatype 'n jsval =
    JUndefined
  | JNull
  | JBool bool
  | JNum 'n
  | JStr string
  | JArr "'n jsval list"
  | JObj "(string \<times> 'n jsval) list"

type_synonym 'n obj = "(string \<times> 'n jsval) list"

text \<open>A thrown value: an \<open>Error\<close> with its message, or anything else.\<close>

datatype thrown = Error string | NonError

record URL =
  protocol :: string
  hostname :: string
  pathname :: string

text \<open>
  What the sources take from the JavaScript runtime and its libraries, and do not define:
  the conversions of numbers, \<open>parseFloat\<close>, \<open>isNaN\<close>, the \<open>RegExp\<close> constructor applied to a
  pattern source and flags (it throws on a malformed source), the \<open>URL\<close> constructor (\<open>None\<close>:
  it throws), \<open>JSON.stringify(value, null, indent)\<close>, and the text that a template
  literal prints for a property of \<open>Object.prototype\<close>.
\<close>

record 'n runtime =
  ToBoolean_num :: "'n \<Rightarrow> bool"
  ToString_num :: "'n \<Rightarrow> string"
  parseFloat :: "string \<Rightarrow> 'n"
  isNaN :: "'n \<Rightarrow> bool"
  RegExp_new :: "string \<Rightarrow> string \<Rightarrow> thrown + rx_flags \<times> rx"
  URL_new :: "string \<Rightarrow> URL option"
  JSON_stringify :: "'n jsval \<Rightarrow> nat \<Rightarrow> string"
  inheritedText :: "string \<Rightarrow> string"

text \<open>\<open>ToBoolean\<close>: what \<open>||\<close>, \<open>&&\<close>, \<open>!\<close> and the conditional test.\<close>

fun truthy :: "'n runtime \<Rightarrow> 'n jsval \<Rightarrow> bool" where
  "truthy rt JUndefined = False"
| "truthy rt JNull = False"
| "truthy rt (JBool b) = b"
| "truthy rt (JNum n) = ToBoolean_num rt n"
| "truthy rt (JStr s) = (s \<noteq> [])"
| "truthy rt (JArr xs) = True"
| "truthy rt (JObj ps) = True"

text \<open>\<open>a || b\<close>.\<close>

definition or_else :: "'n runtime \<Rightarrow> 'n jsval \<Rightarrow> 'n jsval \<Rightarrow> 'n jsval" where
  "or_else rt a b = (if truthy rt a then a else b)"

text \<open>\<open>xs.join(sep)\<close> on strings.\<close>

fun join :: "string \<Rightarrow> string list \<Rightarrow> string" where
  "join sep [] = []"
| "join sep [x] = x"
| "join sep (x # y # ys) = x @ sep @ join sep (y # ys)"

text \<open>\<open>String(v)\<close> and the conversion inside a template literal. An array is joined with
  commas, \<open>null\<close> and \<open>undefined\<close> elements giving the empty string.\<close>

fun ToString :: "'n runtime \<Rightarrow> 'n jsval \<Rightarrow> string"
  and ToString_elem :: "'n runtime \<Rightarrow> 'n jsval \<Rightarrow> string" where
  "ToString rt JUndefined = ''undefined''"
| "ToString rt JNull = ''null''"
| "ToString rt (JBool b) = (if b then ''true'' else ''false'')"
| "ToString rt (JNum n) = ToString_num rt n"
| "ToString rt (JStr s) = s"
| "ToString rt (JArr xs) = join '','' (map (ToString_elem rt) xs)"
| "ToString rt (JObj ps) = ''[object Object]''"
| "ToString_elem rt JUndefined = []"
| "ToString_elem rt JNull = []"
| "ToString_elem rt (JBool b) = ToString rt (JBool b)"
| "ToString_elem rt (JNum n) = ToString rt (JNum n)"
| "ToString_elem rt (JStr s) = ToString rt (JStr s)"
| "ToString_elem rt (JArr xs) = ToString rt (JArr xs)"
| "ToString_elem rt (JObj ps) = ToString rt (JObj ps)"

text \<open>\<open>o.k\<close> on an object of data: the own property, \<open>undefined\<close> when there is none.\<close>

definition get :: "'n obj \<Rightarrow> string \<Rightarrow> 'n jsval" where
  "get ob k = (case map_of ob k of Some v \<Rightarrow> v | None \<Rightarrow> JUndefined)"

text \<open>\<open>o[k] = v\<close>: an existing property keeps its place, a new one goes last.\<close>

fun put :: "(string \<times> 'v) list \<Rightarrow> string \<Rightarrow> 'v \<Rightarrow> (string \<times> 'v) list" where
  "put [] k v = [(k, v)]"
| "put ((k', v') # ps) k v = (if k' = k then (k, v) # ps else (k', v') # put ps k v)"

text \<open>\<open>o[k] = v\<close> on an object literal whose keys come from data: the name \<open>__proto__\<close>
  reaches the setter of the prototype, and the object gets no property of its own.\<close>

definition assign :: "(string \<times> 'v) list \<Rightarrow> string \<Rightarrow> 'v \<Rightarrow> (string \<times> 'v) list" where
  "assign ob k v = (if k = ''__proto__'' then ob else put ob k v)"

text \<open>\<open>s.trim()\<close>.\<close>

definition trimmable :: "char \<Rightarrow> bool" where
  "trimmable c = (isWhiteSpace c \<or> isLineTerminator c)"

definition trim :: "string \<Rightarrow> string" where
  "trim s = rev (dropWhile trimmable (rev (dropWhile trimmable s)))"

text \<open>\<open>s.split(c)\<close> for a separator of one character: never empty.\<close>

fun split :: "char \<Rightarrow> string \<Rightarrow> string list" where
  "split sep [] = [[]]"
| "split sep (c # cs) =
     (if c = sep then [] # split sep cs
      else (case split sep cs of x # xs \<Rightarrow> (c # x) # xs | [] \<Rightarrow> [[c]]))"

section \<open>The crawl route (route.ts)\<close>

subsection \<open>Schemas\<close>

record SchemaProperty =
  type' :: string
  description :: "string option"

record Schema =
  schema_type :: string
  properties :: "(string \<times> SchemaProperty) list"

record JsonProperty =
  json_type :: string
  items :: "string option"       \<comment> \<open>the \<open>type\<close> of \<open>items\<close>, for an array\<close>
  json_description :: string

record JsonSchema =
  js_type :: string
  js_properties :: "(string \<times> JsonProperty) list"
  required :: "string list"

text \<open>\<open>property.description || `${key} field`\<close>, and the \<open>switch\<close> on the type of the
  property with its \<open>default\<close> branch.\<close>

definition describe :: "string \<Rightarrow> SchemaProperty \<Rightarrow> string" where
  "describe key property =
     (case description property of
        Some d \<Rightarrow> if d \<noteq> [] then d else key @ '' field''
      | None \<Rightarrow> key @ '' field'')"

definition jsonProperty :: "string \<Rightarrow> SchemaProperty \<Rightarrow> JsonProperty" where
  "jsonProperty key property =
     (if type' property = ''string'' then
        \<lparr>json_type = ''string'', items = None, json_description = describe key property\<rparr>
      else if type' property = ''number'' then
        \<lparr>json_type = ''number'', items = None, json_description = describe key property\<rparr>
      else if type' property = ''boolean'' then
        \<lparr>json_type = ''boolean'', items = None, json_description = describe key property\<rparr>
      else if type' property = ''array'' then
        \<lparr>json_type = ''array'', items = Some ''string'', json_description = describe key property\<rparr>
      else
        \<lparr>json_type = ''string'', items = None, json_description = describe key property\<rparr>)"

definition createJsonSchema :: "Schema \<Rightarrow> JsonSchema" where
  "createJsonSchema schema =
     \<lparr>js_type = ''object'',
      js_properties =
        foldl (\<lambda>jsonProperties (key, property). assign jsonProperties key (jsonProperty key property))
          [] (properties schema),
      required = map fst (properties schema)\<rparr>"

definition getDefaultSchema :: Schema where
  "getDefaultSchema =
     \<lparr>schema_type = ''object'',
      properties =
        [(''title'', \<lparr>type' = ''string'', description = Some ''Main title or heading''\<rparr>),
         (''description'', \<lparr>type' = ''string'', description = Some ''Content description''\<rparr>),
         (''url'', \<lparr>type' = ''string'', description = Some ''Source URL''\<rparr>)]\<rparr>"

subsection \<open>Schema inference\<close>

definition flags_g :: rx_flags where "flags_g = flags_none"
definition flags_gi :: rx_flags where "flags_gi = flags_i"

definition colon_or_space :: cclass where
  "colon_or_space = CSet [CChar (CHR '':''), CSpace]"

definition digit_or_comma :: cclass where
  "digit_or_comma = CSet [CDigit, CChar (CHR '','')]"

definition not_comma_newline :: cclass where
  "not_comma_newline = CNot [CChar (CHR '',''), CChar LF]"

definition not_comma_space_newline :: cclass where
  "not_comma_space_newline = CNot [CChar (CHR '',''), CSpace, CChar LF]"

definition id_char :: cclass where
  "id_char = CSet [COneOf uppers, COneOf lowers, COneOf digits, CChar (CHR ''-''), CChar (CHR ''_'')]"

text \<open>
  The table \<open>patterns\<close>: flags, pattern, field, type, description, in the order of the source.
  \<^enum> \<^verbatim>\<open>/\$[\d,]+\.?\d*/g\<close>
  \<^enum> \<^verbatim>\<open>/price[:\s]*\$?[\d,]+\.?\d*/gi\<close>
  \<^enum> \<^verbatim>\<open>/<h[1-3][^>]*>([^<]+)<\/h[1-3]>/gi\<close>
  \<^enum> \<^verbatim>\<open>/<p[^>]*>([^<]{50,})<\/p>/gi\<close>
  \<^enum> \<^verbatim>\<open>/<img[^>]*src="([^"]+)"/gi\<close>
  \<^enum> \<^verbatim>\<open>/\!\[([^\]]*)\]\(([^)]+)\)/g\<close>
  \<^enum> \<^verbatim>\<open>/category[:\s]*([^,\n]+)/gi\<close>
  \<^enum> \<^verbatim>\<open>/tags?[:\s]*([^,\n]+)/gi\<close>
  \<^enum> \<^verbatim>\<open>/phone[:\s]*([^,\n]+)/gi\<close>
  \<^enum> \<^verbatim>\<open>/email[:\s]*([^,\s\n]+@[^,\s\n]+)/gi\<close>
  \<^enum> \<^verbatim>\<open>/address[:\s]*([^,\n]{10,})/gi\<close>
  \<^enum> \<^verbatim>\<open>/\d{1,2}\/\d{1,2}\/\d{4}/g\<close>
  \<^enum> \<^verbatim>\<open>/\d{4}-\d{2}-\d{2}/g\<close>
  \<^enum> \<^verbatim>\<open>/rating[:\s]*(\d+\.?\d*)/gi\<close>
  \<^enum> \<^verbatim>\<open>/(\d+\.?\d*)\s*stars?/gi\<close>
  \<^enum> \<^verbatim>\<open>/in\s+stock/gi\<close>
  \<^enum> \<^verbatim>\<open>/out\s+of\s+stock/gi\<close>
  \<^enum> \<^verbatim>\<open>/author[:\s]*([^,\n]+)/gi\<close>
  \<^enum> \<^verbatim>\<open>/by\s+([A-Z][a-z]+\s+[A-Z][a-z]+)/g\<close>
  \<^enum> \<^verbatim>\<open>/id[:\s]*([A-Za-z0-9-_]+)/gi\<close>
  \<^enum> \<^verbatim>\<open>/sku[:\s]*([A-Za-z0-9-_]+)/gi\<close>
\<close>

definition patterns :: "(rx_flags \<times> rx \<times> string \<times> string \<times> string) list" where
  "patterns =
    [(flags_g,
      seqs [lit ''$'', many1 digit_or_comma, opt (CChar (CHR ''.'')), many CDigit],
      ''price'', ''string'', ''Product price''),
     (flags_gi,
      seqs [lit ''price'', many colon_or_space, opt (CChar (CHR ''$'')), many1 digit_or_comma,
            opt (CChar (CHR ''.'')), many CDigit],
      ''price'', ''string'', ''Price information''),
     (flags_gi,
      seqs [lit ''<h'', Atom (COneOf ''123''), many (CNot [CChar (CHR ''>'')]), lit ''>'',
            Grp 1 (many1 (CNot [CChar (CHR ''<'')])), lit ''</h'', Atom (COneOf ''123''),
            lit ''>''],
      ''title'', ''string'', ''Main title or heading''),
     (flags_gi,
      seqs [lit ''<p'', many (CNot [CChar (CHR ''>'')]), lit ''>'',
            Grp 1 (Rep (CNot [CChar (CHR ''<'')]) 50 None), lit ''</p>''],
      ''description'', ''string'', ''Content description''),
     (flags_gi,
      seqs [lit ''<img'', many (CNot [CChar (CHR ''>'')]), lit ''src='', Atom (CChar DQ),
            Grp 1 (many1 (CNot [CChar DQ])), Atom (CChar DQ)],
      ''image_url'', ''string'', ''Image URL''),
     (flags_g,
      seqs [lit ''!['', Grp 1 (many (CNot [CChar (CHR '']'')])), lit '']('',
            Grp 2 (many1 (CNot [CChar (CHR '')'')])), lit '')''],
      ''image_url'', ''string'', ''Image URL from markdown''),
     (flags_gi,
      seqs [lit ''category'', many colon_or_space, Grp 1 (many1 not_comma_newline)],
      ''category'', ''string'', ''Product or content category''),
     (flags_gi,
      seqs [lit ''tag'', opt (CChar (CHR ''s'')), many colon_or_space,
            Grp 1 (many1 not_comma_newline)],
      ''tags'', ''array'', ''Content tags''),
     (flags_gi,
      seqs [lit ''phone'', many colon_or_space, Grp 1 (many1 not_comma_newline)],
      ''phone'', ''string'', ''Phone number''),
     (flags_gi,
      seqs [lit ''email'', many colon_or_space,
            Grp 1 (seqs [many1 not_comma_space_newline, lit ''@'',
                         many1 not_comma_space_newline])],
      ''email'', ''string'', ''Email address''),
     (flags_gi,
      seqs [lit ''address'', many colon_or_space, Grp 1 (Rep not_comma_newline 10 None)],
      ''address'', ''string'', ''Physical address''),
     (flags_g,
      seqs [Rep CDigit 1 (Some 2), lit ''/'', Rep CDigit 1 (Some 2), lit ''/'', exactly 4 CDigit],
      ''date'', ''string'', ''Date information''),
     (flags_g,
      seqs [exactly 4 CDigit, lit ''-'', exactly 2 CDigit, lit ''-'', exactly 2 CDigit],
      ''date'', ''string'', ''Date in ISO format''),
     (flags_gi,
      seqs [lit ''rating'', many colon_or_space,
            Grp 1 (seqs [many1 CDigit, opt (CChar (CHR ''.'')), many CDigit])],
      ''rating'', ''number'', ''Rating score''),
     (flags_gi,
      seqs [Grp 1 (seqs [many1 CDigit, opt (CChar (CHR ''.'')), many CDigit]), many CSpace,
            lit ''star'', opt (CChar (CHR ''s''))],
      ''rating'', ''number'', ''Star rating''),
     (flags_gi,
      seqs [lit ''in'', many1 CSpace, lit ''stock''],
      ''availability'', ''string'', ''Stock availability''),
     (flags_gi,
      seqs [lit ''out'', many1 CSpace, lit ''of'', many1 CSpace, lit ''stock''],
      ''availability'', ''string'', ''Stock availability''),
     (flags_gi,
      seqs [lit ''author'', many colon_or_space, Grp 1 (many1 not_comma_newline)],
      ''author'', ''string'', ''Content author''),
     (flags_g,
      seqs [lit ''by'', many1 CSpace,
            Grp 1 (seqs [Atom (COneOf uppers), many1 (COneOf lowers), many1 CSpace,
                         Atom (COneOf uppers), many1 (COneOf lowers)])],
      ''author'', ''string'', ''Author name''),
     (flags_gi,
      seqs [lit ''id'', many colon_or_space, Grp 1 (many1 id_char)],
      ''id'', ''string'', ''Unique identifier''),
     (flags_gi,
      seqs [lit ''sku'', many colon_or_space, Grp 1 (many1 id_char)],
      ''sku'', ''string'', ''Product SKU'')]"

text \<open>\<open>s.includes(t)\<close>.\<close>

fun startsWith :: "string \<Rightarrow> string \<Rightarrow> bool" where
  "startsWith s [] = True"
| "startsWith [] (t # ts) = False"
| "startsWith (c # cs) (t # ts) = (c = t \<and> startsWith cs ts)"

fun includes_str :: "string \<Rightarrow> string \<Rightarrow> bool" where
  "includes_str [] t = startsWith [] t"
| "includes_str (c # cs) t = (if startsWith (c # cs) t then True else includes_str cs t)"

text \<open>With the \<open>g\<close> flag \<open>content.match\<close> gives all the matches, or \<open>null\<close> when there is
  none; the source tests only that there is one. A matching pattern assigns its field, also
  when an earlier pattern has assigned it already.\<close>

definition applyPattern ::
  "string \<Rightarrow> (string \<times> SchemaProperty) list \<Rightarrow> rx_flags \<times> rx \<times> string \<times> string \<times> string
     \<Rightarrow> (string \<times> SchemaProperty) list" where
  "applyPattern content props pattern =
     (case pattern of (f, regex, field, ty, descr) \<Rightarrow>
        (case match content f regex of
           Some m \<Rightarrow> put props field \<lparr>type' = ty, description = Some descr\<rparr>
         | None \<Rightarrow> props))"

definition has :: "(string \<times> 'v) list \<Rightarrow> string \<Rightarrow> bool" where
  "has props k = (map_of props k \<noteq> None)"

text \<open>\<open>if (!schema.properties.k) schema.properties.k = { type, description }\<close>.\<close>

definition ensure ::
  "string \<Rightarrow> string \<Rightarrow> string \<Rightarrow> (string \<times> SchemaProperty) list \<Rightarrow> (string \<times> SchemaProperty) list" where
  "ensure k ty descr props =
     (if has props k then props else put props k \<lparr>type' = ty, description = Some descr\<rparr>)"

definition inferSchemaFromContent :: "string option \<Rightarrow> string option \<Rightarrow> Schema" where
  "inferSchemaFromContent markdown_opt html_opt =
     (let markdown = (case markdown_opt of Some m \<Rightarrow> m | None \<Rightarrow> []);
          html = (case html_opt of Some h \<Rightarrow> h | None \<Rightarrow> []);
          content = markdown @ '' '' @ html;
          p0 = foldl (applyPattern content) [] patterns;
          p1 = ensure ''title'' ''string'' ''Main title or name'' p0;
          p2 = ensure ''description'' ''string'' ''Main content or description'' p1;
          p3 = (if includes_str (toLowerCase content) ''product'' \<or> has p2 ''price''
                then ensure ''availability'' ''string'' ''Stock status''
                       (ensure ''category'' ''string'' ''Product category''
                         (ensure ''price'' ''string'' ''Product price'' p2))
                else p2);
          p4 = (if includes_str (toLowerCase content) ''article'' \<or> includes_str (toLowerCase content) ''blog''
                then ensure ''tags'' ''array'' ''Article tags''
                       (ensure ''date'' ''string'' ''Publication date''
                         (ensure ''author'' ''string'' ''Article author'' p3))
                else p3);
          p5 = (if includes_str (toLowerCase content) ''contact'' \<or> has p4 ''phone'' \<or> has p4 ''email''
                then ensure ''address'' ''string'' ''Physical address''
                       (ensure ''email'' ''string'' ''Email address''
                         (ensure ''phone'' ''string'' ''Phone number''
                           (ensure ''name'' ''string'' ''Business or person name'' p4)))
                else p4)
      in \<lparr>schema_type = ''object'', properties = p5\<rparr>)"

subsection \<open>Extraction from markdown\<close>

definition month_names :: rx where
  "month_names = alts (map lit
     [''January'', ''February'', ''March'', ''April'', ''May'', ''June'', ''July'',
      ''August'', ''September'', ''October'', ''November'', ''December''])"

definition month_abbrevs :: rx where
  "month_abbrevs = alts (map lit
     [''Jan'', ''Feb'', ''Mar'', ''Apr'', ''May'', ''Jun'', ''Jul'', ''Aug'', ''Sep'', ''Oct'',
      ''Nov'', ''Dec''])"

text \<open>
  The five entries of \<open>datePatterns\<close>, in the order of the source, each with its flags:
  \<^enum> \<^verbatim>\<open>/(\d{4}-\d{2}-\d{2})/\<close>
  \<^enum> \<^verbatim>\<open>/(\d{1,2}\/\d{1,2}\/\d{4})/\<close>
  \<^enum> \<^verbatim>\<open>/(January|February|...|December)\s+\d{1,2},?\s+\d{4}/i\<close>
  \<^enum> \<^verbatim>\<open>/(\d{1,2}\s+(Jan|Feb|...|Dec)\s+\d{4})/i\<close>
  \<^enum> \<^verbatim>\<open>/(Jan|Feb|...|Dec)\s+\d{1,2},?\s+\d{4}/i\<close>

  In the third and the fifth pattern the parentheses enclose the name of the month only.
\<close>

definition datePatterns :: "(rx_flags \<times> rx) list" where
  "datePatterns =
    [ (flags_none,
       Grp 1 (seqs [exactly 4 CDigit, lit ''-'', exactly 2 CDigit, lit ''-'', exactly 2 CDigit])),
      (flags_none,
       Grp 1 (seqs [Rep CDigit 1 (Some 2), lit ''/'', Rep CDigit 1 (Some 2), lit ''/'',
                    exactly 4 CDigit])),
      (flags_i,
       seqs [Grp 1 month_names, many1 CSpace, Rep CDigit 1 (Some 2), opt (CChar (CHR '','')),
             many1 CSpace, exactly 4 CDigit]),
      (flags_i,
       Grp 1 (seqs [Rep CDigit 1 (Some 2), many1 CSpace, Grp 2 month_abbrevs, many1 CSpace,
                    exactly 4 CDigit])),
      (flags_i,
       seqs [Grp 1 month_abbrevs, many1 CSpace, Rep CDigit 1 (Some 2), opt (CChar (CHR '','')),
             many1 CSpace, exactly 4 CDigit]) ]"

text \<open>The loop over the patterns stops at the first pattern that matches and returns
  \<open>match[1]\<close> of that match, the empty string when no pattern matches.\<close>

fun firstMatch :: "(rx_flags \<times> rx) list \<Rightarrow> string \<Rightarrow> rx_match option" where
  "firstMatch [] s = None"
| "firstMatch ((f, r) # ps) s =
     (case match s f r of Some m \<Rightarrow> Some m | None \<Rightarrow> firstMatch ps s)"

definition extractDateFromMarkdown :: "string \<Rightarrow> 'n jsval" where
  "extractDateFromMarkdown markdown =
     (case firstMatch datePatterns markdown of
        Some m \<Rightarrow> (case group m 1 of Some s \<Rightarrow> JStr s | None \<Rightarrow> JUndefined)
      | None \<Rightarrow> JStr [])"

text \<open>
  \<open>extractTitleFromMarkdown\<close>: \<^verbatim>\<open>/^#\s+(.+)$/m\<close>, then \<^verbatim>\<open>/^##\s+(.+)$/m\<close>, then the first line.
  Reading \<open>match[1].trim()\<close> of a group that took no part would throw a \<open>TypeError\<close>.
\<close>

definition h1Pattern :: rx where
  "h1Pattern = seqs [Bol, lit ''#'', many1 CSpace, Grp 1 (many1 CDot), Eol]"

definition h2Pattern :: rx where
  "h2Pattern = seqs [Bol, lit ''##'', many1 CSpace, Grp 1 (many1 CDot), Eol]"

definition TypeError_undefined :: thrown where
  "TypeError_undefined = Error ''Cannot read properties of undefined''"

definition extractTitleFromMarkdown :: "string \<Rightarrow> thrown + string" where
  "extractTitleFromMarkdown markdown =
     (case match markdown flags_m h1Pattern of
        Some h1Match \<Rightarrow>
          (case group h1Match 1 of Some s \<Rightarrow> Inr (trim s) | None \<Rightarrow> Inl TypeError_undefined)
      | None \<Rightarrow>
          (case match markdown flags_m h2Pattern of
             Some h2Match \<Rightarrow>
               (case group h2Match 1 of Some s \<Rightarrow> Inr (trim s) | None \<Rightarrow> Inl TypeError_undefined)
           | None \<Rightarrow>
               (let firstLine = hd (split LF markdown)
                in Inr (if firstLine \<noteq> [] then trim firstLine else []))))"

text \<open>
  \<open>extractFieldFromMarkdown\<close> builds its pattern from the name of the field:
  \<^verbatim>\<open>new RegExp(`${fieldName}[:\\s]+(.+)`, 'i')\<close>. The constructor belongs to the runtime; it throws
  when the source is not a pattern.
\<close>

definition fieldPatternSource :: "string \<Rightarrow> string" where
  "fieldPatternSource fieldName = fieldName @ ''[:'' @ [CHR 0x5C] @ ''s]+(.+)''"

definition extractFieldFromMarkdown ::
  "'n runtime \<Rightarrow> string \<Rightarrow> string \<Rightarrow> string \<Rightarrow> thrown + 'n jsval" where
  "extractFieldFromMarkdown rt markdown fieldName fieldType =
     (case RegExp_new rt (fieldPatternSource fieldName) ''i'' of
        Inl e \<Rightarrow> Inl e
      | Inr (f, fieldRegex) \<Rightarrow>
          (case match markdown f fieldRegex of
             Some m \<Rightarrow>
               (case group m 1 of
                  None \<Rightarrow> Inl TypeError_undefined
                | Some g \<Rightarrow>
                    (let value = trim g in
                     if fieldType = ''number'' then
                       (let num = parseFloat rt value
                        in Inr (if isNaN rt num then JNull else JNum num))
                     else if fieldType = ''boolean'' then
                       Inr (JBool (toLowerCase value = ''true'' \<or> toLowerCase value = ''yes''))
                     else if fieldType = ''array'' then
                       Inr (JArr (map (\<lambda>s. JStr (trim s)) (split (CHR '','') value)))
                     else Inr (JStr value)))
           | None \<Rightarrow> Inr (if fieldType = ''array'' then JArr [] else JStr [])))"

subsection \<open>The fetcher\<close>

text \<open>A page as the fetcher returns it; every field may be absent.\<close>

record 'n page =
  json :: "'n obj option"
  extract' :: "'n obj option"
  markdown :: "string option"
  metadata :: "'n obj option"
  url :: "string option"
  links :: "string list option"
  screenshot :: "string option"

text \<open>The result of one \<open>scrapeUrl\<close> call, and the entries of \<open>fallbackResults\<close>.\<close>

record 'n ScrapeResponse = "'n page" +
  success :: bool
  error :: "string option"
  data :: "'n page option"
  html :: "string option"

record 'n BatchScrapeResponse =
  batch_success :: bool
  batch_error :: "string option"
  batch_data :: "'n page list option"
  batch_creditsUsed :: "nat option"

record ScrapeOptions =
  formats :: "string list"
  onlyMainContent :: bool
  timeout :: "int option"
  maxAge :: "int option"
  jsonOptions :: "JsonSchema option"

text \<open>
  The Firecrawl client is outside the repository. A call depends on the state \<open>'w\<close> of the
  world and changes it; it returns a response or throws.
\<close>

record ('n, 'w) FirecrawlApp =
  scrapeUrl :: "string \<Rightarrow> ScrapeOptions \<Rightarrow> 'w \<Rightarrow> (thrown + 'n ScrapeResponse) \<times> 'w"
  batchScrapeUrls ::
    "string list \<Rightarrow> ScrapeOptions \<Rightarrow> 'w \<Rightarrow> (thrown + 'n BatchScrapeResponse) \<times> 'w"

subsection \<open>Request and response\<close>

text \<open>The body of the request; \<open>None\<close> is a field that is absent (or \<open>null\<close>).\<close>

record crawl_request =
  req_url :: "string option"
  req_schema :: "Schema option"
  req_autoInfer :: "bool option"
  req_includeRaw :: "bool option"
  req_selectedUrls :: "string list option"
  req_maxAge :: "int option"

record 'n crawlResult =
  cr_success :: bool
  cr_data :: "'n page list"
  cr_total :: nat
  cr_completed :: nat
  cr_creditsUsed :: "nat option"

record 'n rawEntry =
  extractedJson :: "'n obj option"
  raw_metadata :: "'n obj"
  raw_url :: string
  raw_markdown :: string
  raw_links :: "string list"
  raw_screenshot :: "string option"

record 'n CrawlResponse =
  res_success :: bool
  res_data :: "'n obj list"
  totalPages :: nat
  completed :: nat
  inferredSchema :: "Schema option"
  strategy :: string
  creditsUsed :: nat
  rawData :: "'n rawEntry list option"

text \<open>\<open>NextResponse.json(body)\<close> with status 200, or \<open>NextResponse.json({ error }, { status })\<close>.\<close>

datatype 'n response =
    Ok "'n CrawlResponse"
  | Failed string nat

subsection \<open>The handler\<close>

definition message_or :: "thrown \<Rightarrow> string \<Rightarrow> string" where
  "message_or e dflt = (case e of Error m \<Rightarrow> m | NonError \<Rightarrow> dflt)"

text \<open>The sequential fallback: every URL is fetched in turn; a fetch that throws leaves an
  entry with \<open>success: false\<close> and the loop goes on.\<close>

definition failedEntry :: "string \<Rightarrow> thrown \<Rightarrow> 'n ScrapeResponse" where
  "failedEntry u err =
     \<lparr>json = None, extract' = None, markdown = None,
      metadata = Some [(''sourceURL'', JStr u)], url = Some u, links = None, screenshot = None,
      success = False, error = Some (message_or err ''Scrape failed''), data = None,
      html = None\<rparr>"

fun fallbackLoop ::
  "('n, 'w) FirecrawlApp \<Rightarrow> ScrapeOptions \<Rightarrow> string list \<Rightarrow> 'w \<Rightarrow> 'n ScrapeResponse list \<times> 'w" where
  "fallbackLoop app scrapeOptions [] w = ([], w)"
| "fallbackLoop app scrapeOptions (u # us) w =
     (case scrapeUrl app u scrapeOptions w of
        (Inr result, w') \<Rightarrow>
          (case fallbackLoop app scrapeOptions us w' of (rs, w'') \<Rightarrow> (result # rs, w''))
      | (Inl err, w') \<Rightarrow>
          (case fallbackLoop app scrapeOptions us w' of (rs, w'') \<Rightarrow> (failedEntry u err # rs, w'')))"

definition str_or_undefined :: "string option \<Rightarrow> 'n jsval" where
  "str_or_undefined s = (case s of Some x \<Rightarrow> JStr x | None \<Rightarrow> JUndefined)"

definition field_of :: "'n obj option \<Rightarrow> string \<Rightarrow> 'n jsval" where
  "field_of ob k = (case ob of Some m \<Rightarrow> get m k | None \<Rightarrow> JUndefined)"

text \<open>The conversion of a successful fallback entry to a page.\<close>

definition toPage :: "'n runtime \<Rightarrow> 'n ScrapeResponse \<Rightarrow> 'n page" where
  "toPage rt result =
     (case data result of
        Some d \<Rightarrow> d
      | None \<Rightarrow>
          \<lparr>json = json result,
           extract' = extract' result,
           markdown = Some (case markdown result of Some m \<Rightarrow> m | None \<Rightarrow> []),
           metadata = Some (case metadata result of Some m \<Rightarrow> m | None \<Rightarrow> []),
           url = Some (ToString rt
                   (or_else rt (or_else rt (str_or_undefined (url result))
                       (case metadata result of
                          Some m \<Rightarrow> get m ''sourceURL''
                        | None \<Rightarrow> JStr []))
                     (JStr []))),
           links = Some (case links result of Some l \<Rightarrow> l | None \<Rightarrow> []),
           screenshot = screenshot result\<rparr>)"

definition fallbackCrawl ::
  "'n runtime \<Rightarrow> ('n, 'w) FirecrawlApp \<Rightarrow> ScrapeOptions \<Rightarrow> string list \<Rightarrow> 'w
     \<Rightarrow> 'n crawlResult \<times> 'w" where
  "fallbackCrawl rt app scrapeOptions selectedUrls w =
     (case fallbackLoop app scrapeOptions selectedUrls w of
        (fallbackResults, w') \<Rightarrow>
          (\<lparr>cr_success = True,
            cr_data = map (toPage rt) (filter success fallbackResults),
            cr_total = length selectedUrls,
            cr_completed = length (filter success fallbackResults),
            cr_creditsUsed = Some (length (filter success fallbackResults))\<rparr>, w'))"

text \<open>The \<open>try\<close> around the batch call: a batch that throws or reports \<open>success: false\<close>
  is caught, and the fallback runs.\<close>

definition crawl ::
  "'n runtime \<Rightarrow> ('n, 'w) FirecrawlApp \<Rightarrow> ScrapeOptions \<Rightarrow> string list \<Rightarrow> 'w
     \<Rightarrow> 'n crawlResult \<times> 'w" where
  "crawl rt app scrapeOptions selectedUrls w =
     (case batchScrapeUrls app selectedUrls scrapeOptions w of
        (Inr batchScrapeResult, w') \<Rightarrow>
          if \<not> batch_success batchScrapeResult then
            fallbackCrawl rt app scrapeOptions selectedUrls w'
          else
            (let resultData = (case batch_data batchScrapeResult of Some d \<Rightarrow> d | None \<Rightarrow> [])
             in (\<lparr>cr_success = True,
                  cr_data = resultData,
                  cr_total = length selectedUrls,
                  cr_completed = length resultData,
                  cr_creditsUsed =
                    Some (case batch_creditsUsed batchScrapeResult of
                            Some c \<Rightarrow> c
                          | None \<Rightarrow> length resultData)\<rparr>, w'))
      | (Inl err, w') \<Rightarrow> fallbackCrawl rt app scrapeOptions selectedUrls w')"

text \<open>The record of one page: the structured data when the page has it, the fields of the
  schema read from the markdown otherwise.\<close>

definition markdown_of :: "'n page \<Rightarrow> string" where
  "markdown_of pg = (case markdown pg of Some m \<Rightarrow> m | None \<Rightarrow> [])"

definition extractField ::
  "'n runtime \<Rightarrow> 'n page \<Rightarrow> string \<Rightarrow> SchemaProperty \<Rightarrow> thrown + 'n jsval" where
  "extractField rt pg key property =
     (if key = ''title'' then
        (if truthy rt (field_of (metadata pg) ''title'') then Inr (field_of (metadata pg) ''title'')
         else map_sum id JStr (extractTitleFromMarkdown (markdown_of pg)))
      else if key = ''date'' then
        Inr (or_else rt (field_of (metadata pg) ''publishedTime'')
               (extractDateFromMarkdown (markdown_of pg)))
      else if key = ''content'' then
        Inr (JStr (markdown_of pg))
      else if key = ''url'' then
        Inr (or_else rt (field_of (metadata pg) ''sourceURL'')
               (or_else rt (str_or_undefined (url pg)) (JStr [])))
      else extractFieldFromMarkdown rt (markdown_of pg) key (type' property))"

fun extractFields ::
  "'n runtime \<Rightarrow> 'n page \<Rightarrow> (string \<times> SchemaProperty) list \<Rightarrow> 'n obj \<Rightarrow> thrown + 'n obj" where
  "extractFields rt pg [] structuredData = Inr structuredData"
| "extractFields rt pg ((key, property) # rest) structuredData =
     (case extractField rt pg key property of
        Inl e \<Rightarrow> Inl e
      | Inr v \<Rightarrow> extractFields rt pg rest (assign structuredData key v))"

definition extractPage :: "'n runtime \<Rightarrow> Schema \<Rightarrow> 'n page \<Rightarrow> thrown + 'n obj" where
  "extractPage rt finalSchema pg =
     (case json pg of
        Some j \<Rightarrow> Inr j
      | None \<Rightarrow>
          (case extract' pg of
             Some e \<Rightarrow> Inr e
           | None \<Rightarrow> extractFields rt pg (properties finalSchema) []))"

fun extractAll :: "'n runtime \<Rightarrow> Schema \<Rightarrow> 'n page list \<Rightarrow> thrown + 'n obj list" where
  "extractAll rt finalSchema [] = Inr []"
| "extractAll rt finalSchema (pg # pgs) =
     (case extractPage rt finalSchema pg of
        Inl e \<Rightarrow> Inl e
      | Inr r \<Rightarrow>
          (case extractAll rt finalSchema pgs of Inl e \<Rightarrow> Inl e | Inr rs \<Rightarrow> Inr (r # rs)))"

definition rawEntryOf :: "'n runtime \<Rightarrow> 'n page \<Rightarrow> 'n rawEntry" where
  "rawEntryOf rt pg =
     \<lparr>extractedJson = (case json pg of Some j \<Rightarrow> Some j | None \<Rightarrow> extract' pg),
      raw_metadata = (case metadata pg of Some m \<Rightarrow> m | None \<Rightarrow> []),
      raw_url = ToString rt
                  (or_else rt (or_else rt (str_or_undefined (url pg))
                                 (field_of (metadata pg) ''sourceURL''))
                     (JStr [])),
      raw_markdown = take 2000 (markdown_of pg)
                     @ (if length (markdown_of pg) > 2000 then ''...'' else []),
      raw_links = (case links pg of Some l \<Rightarrow> l | None \<Rightarrow> []),
      raw_screenshot = (case screenshot pg of Some s \<Rightarrow> if s \<noteq> [] then Some s else None
                        | None \<Rightarrow> None)\<rparr>"

text \<open>Schema resolution: with \<open>autoInfer\<close> and no schema a sample page is fetched (the call
  may throw); a sample that reports failure gives the default schema.\<close>

definition sampleOptions :: ScrapeOptions where
  "sampleOptions =
     \<lparr>formats = [''markdown'', ''html''], onlyMainContent = True, timeout = None, maxAge = None,
      jsonOptions = None\<rparr>"

definition resolveSchema ::
  "('n, 'w) FirecrawlApp \<Rightarrow> string \<Rightarrow> Schema option \<Rightarrow> bool \<Rightarrow> 'w
     \<Rightarrow> (thrown + Schema option) \<times> 'w" where
  "resolveSchema app u schema autoInfer w =
     (if autoInfer \<and> schema = None then
        (case scrapeUrl app u sampleOptions w of
           (Inl err, w') \<Rightarrow> (Inl err, w')
         | (Inr scrapeResult, w') \<Rightarrow>
             (if success scrapeResult
              then (Inr (Some (inferSchemaFromContent (markdown scrapeResult) (html scrapeResult))), w')
              else (Inr (Some getDefaultSchema), w')))
      else (Inr schema, w))"

text \<open>The options of the batch call and of every fallback call: the schema is always there
  at this point, so the formats are markdown and json and \<open>jsonOptions\<close> is set.\<close>

definition scrapeOptionsFor :: "Schema \<Rightarrow> int \<Rightarrow> ScrapeOptions" where
  "scrapeOptionsFor finalSchema maxAge_ms =
     \<lparr>formats = [''markdown'', ''json''], onlyMainContent = True,
      timeout = Some 60000, maxAge = Some maxAge_ms,
      jsonOptions = Some (createJsonSchema finalSchema)\<rparr>"

definition apiKeyMissing :: "string option \<Rightarrow> bool" where
  "apiKeyMissing k = (case k of None \<Rightarrow> True | Some s \<Rightarrow> s = [] \<or> s = ''fc-YOUR_API_KEY'')"

text \<open>The body of the outer \<open>try\<close>: a response, or the value thrown.\<close>

definition POST_try ::
  "'n runtime \<Rightarrow> string option \<Rightarrow> ('n, 'w) FirecrawlApp \<Rightarrow> thrown + crawl_request \<Rightarrow> 'w
     \<Rightarrow> (thrown + 'n response) \<times> 'w" where
  "POST_try rt apiKey app body_json w =
     (case body_json of
        Inl err \<Rightarrow> (Inl err, w)
      | Inr body \<Rightarrow>
     (let u = (case req_url body of Some x \<Rightarrow> x | None \<Rightarrow> []);
          schema = req_schema body;
          autoInfer = (case req_autoInfer body of Some b \<Rightarrow> b | None \<Rightarrow> False);
          includeRaw = (case req_includeRaw body of Some b \<Rightarrow> b | None \<Rightarrow> False);
          selectedUrls = (case req_selectedUrls body of Some l \<Rightarrow> l | None \<Rightarrow> []);
          maxAge_ms = (case req_maxAge body of Some a \<Rightarrow> a | None \<Rightarrow> 0)
      in
      if u = [] then (Inr (Failed ''URL is required'' 400), w)
      else if apiKeyMissing apiKey then
        (Inr (Failed ''Firecrawl API key not configured. Please check server configuration.'' 500), w)
      else
        (case resolveSchema app u schema autoInfer w of
           (Inl err, w1) \<Rightarrow> (Inl err, w1)
         | (Inr None, w1) \<Rightarrow> (Inr (Failed ''Schema is required or auto-inference failed'' 400), w1)
         | (Inr (Some finalSchema), w1) \<Rightarrow>
             if selectedUrls = [] then (Inr (Failed ''No URLs selected for scraping'' 400), w1)
             else
               (let scrapeOptions = scrapeOptionsFor finalSchema maxAge_ms
                in case crawl rt app scrapeOptions selectedUrls w1 of
                     (crawlResult, w2) \<Rightarrow>
                       (case extractAll rt finalSchema (cr_data crawlResult) of
                          Inl err \<Rightarrow> (Inl err, w2)
                        | Inr extractedData \<Rightarrow>
                            (Inr (Ok
                               \<lparr>res_success = True,
                                res_data = extractedData,
                                totalPages = (if cr_total crawlResult \<noteq> 0 then cr_total crawlResult
                                              else length extractedData),
                                completed = (if cr_completed crawlResult \<noteq> 0
                                             then cr_completed crawlResult
                                             else length extractedData),
                                inferredSchema = (if autoInfer then Some finalSchema else None),
                                strategy = ''mapCrawl'',
                                creditsUsed = length selectedUrls + 2,
                                rawData = (if includeRaw
                                           then Some (map (rawEntryOf rt) (cr_data crawlResult))
                                           else None)\<rparr>), w2))))))"

text \<open>The outer \<open>catch\<close> turns whatever was thrown into a response with status 500.\<close>

definition POST ::
  "'n runtime \<Rightarrow> string option \<Rightarrow> ('n, 'w) FirecrawlApp \<Rightarrow> thrown + crawl_request \<Rightarrow> 'w
     \<Rightarrow> 'n response \<times> 'w" where
  "POST rt apiKey app body_json w =
     (case POST_try rt apiKey app body_json w of
        (Inr res, w') \<Rightarrow> (res, w')
      | (Inl err, w') \<Rightarrow> (Failed (message_or err ''Failed to crawl website'') 500, w'))"


text \<open>Readers of a response, for stating properties.\<close>

definition status :: "'n response \<Rightarrow> nat" where
  "status res = (case res of Ok r \<Rightarrow> 200 | Failed msg st \<Rightarrow> st)"

definition records :: "'n response \<Rightarrow> 'n obj list" where
  "records res = (case res of Ok r \<Rightarrow> res_data r | Failed msg st \<Rightarrow> [])"

definition strategy_of :: "'n response \<Rightarrow> string option" where
  "strategy_of res = (case res of Ok r \<Rightarrow> Some (strategy r) | Failed msg st \<Rightarrow> None)"

definition completed_of :: "'n response \<Rightarrow> nat option" where
  "completed_of res = (case res of Ok r \<Rightarrow> Some (completed r) | Failed msg st \<Rightarrow> None)"

definition creditsUsed_of :: "'n response \<Rightarrow> nat option" where
  "creditsUsed_of res = (case res of Ok r \<Rightarrow> Some (creditsUsed r) | Failed msg st \<Rightarrow> None)"

text \<open>The batch call failed: it threw, or it reported \<open>success: false\<close>.\<close>

definition batchFailed :: "thrown + 'n BatchScrapeResponse \<Rightarrow> bool" where
  "batchFailed res = (case res of Inl err \<Rightarrow> True | Inr b \<Rightarrow> \<not> batch_success b)"

text \<open>An individual fetch succeeded: it returned, with \<open>success: true\<close>.\<close>

definition fetchSucceeded :: "thrown + 'n ScrapeResponse \<Rightarrow> bool" where
  "fetchSucceeded res = (case res of Inl err \<Rightarrow> False | Inr r \<Rightarrow> success r)"

subsection \<open>A sample runtime and fetcher\<close>

text \<open>A runtime with integers for numbers, whose \<open>RegExp\<close> constructor refuses its source
  with the message that V8 gives for a quantifier with nothing to repeat (the one source that
  the samples hand to it is of that kind: the pattern for the field \<open>c++\<close>), and
  a fetcher whose batch call throws and whose single fetch succeeds with structured data for
  the addresses that end in \<open>1\<close>, \<open>3\<close> and \<open>5\<close>, throws for the address that ends in \<open>2\<close> and
  reports failure for any other. The state of the world counts the calls.\<close>

definition sample_runtime :: "int runtime" where
  "sample_runtime =
     \<lparr>ToBoolean_num = (\<lambda>n. n \<noteq> 0),
      ToString_num = (\<lambda>n. if n = 0 then ''0'' else ''1''),
      parseFloat = (\<lambda>s. 0),
      isNaN = (\<lambda>n. False),
      RegExp_new = (\<lambda>src fl. Inl (Error (''Invalid regular expression: /'' @ src @ ''/'' @ fl
                                           @ '': Nothing to repeat''))),
      URL_new = (\<lambda>s. None),
      JSON_stringify = (\<lambda>v indent. []),
      inheritedText = (\<lambda>k. ''function'')\<rparr>"

definition sample_page :: "string \<Rightarrow> int ScrapeResponse" where
  "sample_page u =
     \<lparr>json = Some [(''title'', JStr u)], extract' = None, markdown = Some ''# Page'',
      metadata = Some [(''sourceURL'', JStr u)], url = None, links = None, screenshot = None,
      success = True, error = None, data = None, html = None\<rparr>"

definition sample_failure :: "int ScrapeResponse" where
  "sample_failure =
     \<lparr>json = None, extract' = None, markdown = None, metadata = None, url = None, links = None,
      screenshot = None, success = False, error = Some ''not found'', data = None, html = None\<rparr>"

definition failing_batch_app :: "(int, nat) FirecrawlApp" where
  "failing_batch_app =
     \<lparr>scrapeUrl = (\<lambda>u opts w.
        if u \<in> set [''https://a.example/1'', ''https://a.example/3'', ''https://a.example/5'']
        then (Inr (sample_page u), Suc w)
        else if u = ''https://a.example/2'' then (Inl (Error ''timeout''), Suc w)
        else (Inr sample_failure, Suc w)),
      batchScrapeUrls = (\<lambda>urls opts w. (Inl (Error ''Batch scrape failed''), Suc w))\<rparr>"

text \<open>A fetcher whose batch call succeeds with one page for each address, and whose single
  fetch throws.\<close>

definition bulk_app :: "(int, nat) FirecrawlApp" where
  "bulk_app =
     \<lparr>scrapeUrl = (\<lambda>u opts w. (Inl (Error ''connection refused''), Suc w)),
      batchScrapeUrls = (\<lambda>urls opts w.
        (Inr \<lparr>batch_success = True, batch_error = None,
              batch_data = Some (map (\<lambda>u. page.truncate (sample_page u)) urls),
              batch_creditsUsed = Some 40\<rparr>, Suc w))\<rparr>"

definition five_urls :: "string list" where
  "five_urls = [''https://a.example/1'', ''https://a.example/2'', ''https://a.example/3'',
                ''https://a.example/4'', ''https://a.example/5'']"

definition sample_request :: "string list \<Rightarrow> crawl_request" where
  "sample_request urls =
     \<lparr>req_url = Some ''https://a.example'', req_schema = Some getDefaultSchema,
      req_autoInfer = None, req_includeRaw = None, req_selectedUrls = Some urls,
      req_maxAge = None\<rparr>"

text \<open>What the individual fetches of the fallback answer, one after the other, whether they
  return or throw; the world moves on with every call.\<close>

fun fetchOutcomes ::
  "('n, 'w) FirecrawlApp \<Rightarrow> ScrapeOptions \<Rightarrow> string list \<Rightarrow> 'w \<Rightarrow> (thrown + 'n ScrapeResponse) list" where
  "fetchOutcomes app scrapeOptions [] w = []"
| "fetchOutcomes app scrapeOptions (u # us) w =
     (case scrapeUrl app u scrapeOptions w of
        (outcome, w') \<Rightarrow> outcome # fetchOutcomes app scrapeOptions us w')"


text \<open>The record that the handler emits for a page, against the page.\<close>

definition emitted :: "'n runtime \<Rightarrow> Schema \<Rightarrow> 'n page \<Rightarrow> 'n obj \<Rightarrow> bool" where
  "emitted rt finalSchema pg rec =
     (case json pg of
        Some j \<Rightarrow> rec = j
      | None \<Rightarrow>
          (case extract' pg of
             Some e \<Rightarrow> rec = e
           | None \<Rightarrow> extractFields rt pg (properties finalSchema) [] = Inr rec))"

text \<open>The responses of the handler on these samples, and a request that asks for inference
  with nothing selected.\<close>

definition fallback_response :: "int CrawlResponse" where
  "fallback_response =
     \<lparr>res_success = True,
      res_data = [[(''title'', JStr ''https://a.example/1'')],
                  [(''title'', JStr ''https://a.example/3'')],
                  [(''title'', JStr ''https://a.example/5'')]],
      totalPages = 5, completed = 3, inferredSchema = None, strategy = ''mapCrawl'',
      creditsUsed = 7, rawData = None\<rparr>"

definition bulk_response :: "int CrawlResponse" where
  "bulk_response =
     \<lparr>res_success = True,
      res_data = map (\<lambda>u. [(''title'', JStr u)]) five_urls,
      totalPages = 5, completed = 5, inferredSchema = None, strategy = ''mapCrawl'',
      creditsUsed = 7, rawData = None\<rparr>"

definition sampling_request :: crawl_request where
  "sampling_request =
     \<lparr>req_url = Some ''https://a.example'', req_schema = None, req_autoInfer = Some True,
      req_includeRaw = None, req_selectedUrls = Some [], req_maxAge = None\<rparr>"






section \<open>The URL tree (page component)\<close>

text \<open>
  A \<open>TreeNode\<close> with its four fields. The children are the own properties of an object,
  listed in the order of insertion; the source enumerates names that look like array indices
  first, which changes the order only, and nothing here depends on the order.
\<close>

datatype TreeNode =
  TreeNode (urls: "string list") (children: "(string \<times> TreeNode) list") (count': nat)
    (path: string)

text \<open>
  The objects \<open>urlsByDomain\<close>, \<open>tree\<close> and \<open>children\<close> are object literals, so reading a
  property that the object does not own finds the properties of \<open>Object.prototype\<close>, which
  are all truthy.
\<close>

definition Object_prototype_keys :: "string list" where
  "Object_prototype_keys =
     [''constructor'', ''__defineGetter__'', ''__defineSetter__'', ''hasOwnProperty'',
      ''__lookupGetter__'', ''__lookupSetter__'', ''isPrototypeOf'', ''propertyIsEnumerable'',
      ''toString'', ''valueOf'', ''__proto__'', ''toLocaleString'']"

text \<open>\<open>urlObj.hostname.replace(/^www\./, '')\<close> and the key of the domain.\<close>

definition normalizedDomain :: "string \<Rightarrow> string" where
  "normalizedDomain host = (if startsWith host ''www.'' then drop 4 host else host)"

definition domainKeyOf :: "URL \<Rightarrow> string" where
  "domainKeyOf urlObj = protocol urlObj @ ''//'' @ normalizedDomain (hostname urlObj)"

text \<open>\<open>urlObj.pathname.split('/').filter(Boolean)\<close>.\<close>

definition pathPartsOf :: "URL \<Rightarrow> string list" where
  "pathPartsOf urlObj = filter (\<lambda>part. part \<noteq> []) (split (CHR ''/'') (pathname urlObj))"

text \<open>
  The first loop groups the URLs by domain. A URL that does not parse is skipped. Were the key
  an inherited property, \<open>push\<close> would throw and the URL would be skipped as well.
\<close>

definition groupUrl :: "'n runtime \<Rightarrow> (string \<times> string list) list \<Rightarrow> string \<Rightarrow> (string \<times> string list) list" where
  "groupUrl rt urlsByDomain u =
     (case URL_new rt u of
        None \<Rightarrow> urlsByDomain
      | Some urlObj \<Rightarrow>
          (let domainKey = domainKeyOf urlObj in
           case map_of urlsByDomain domainKey of
             Some domainUrls \<Rightarrow> put urlsByDomain domainKey (domainUrls @ [u])
           | None \<Rightarrow>
               if domainKey \<in> set Object_prototype_keys then urlsByDomain
               else put urlsByDomain domainKey [u]))"

text \<open>
  The walk down the path parts of one URL, creating the nodes that are missing; the URL goes
  into the node of the last part. When a part names an inherited property the node is not
  created, the next access throws a \<open>TypeError\<close> and the \<open>catch\<close> around the walk swallows
  it: what was built so far stays, and the URL is in no node.
\<close>

fun insertPath ::
  "string \<Rightarrow> string list \<Rightarrow> string \<Rightarrow> (string \<times> TreeNode) list \<Rightarrow> (string \<times> TreeNode) list" where
  "insertPath u [] currentPath current = current"
| "insertPath u (part # rest) currentPath current =
     (case map_of current part of
        Some node \<Rightarrow>
          put current part
            (TreeNode (if rest = [] then urls node @ [u] else urls node)
               (insertPath u rest (currentPath @ ''/'' @ part) (children node))
               (count' node) (path node))
      | None \<Rightarrow>
          if part \<in> set Object_prototype_keys then current
          else
            put current part
              (TreeNode (if rest = [] then [u] else [])
                 (insertPath u rest (currentPath @ ''/'' @ part) [])
                 0 (currentPath @ ''/'' @ part)))"

definition addUrl :: "'n runtime \<Rightarrow> string \<Rightarrow> TreeNode \<Rightarrow> string \<Rightarrow> TreeNode" where
  "addUrl rt domainKey domainNode u =
     (case URL_new rt u of
        None \<Rightarrow> domainNode
      | Some urlObj \<Rightarrow>
          (let pathParts = pathPartsOf urlObj in
           if pathParts = [] then
             TreeNode (urls domainNode @ [u]) (children domainNode) (count' domainNode)
               (path domainNode)
           else
             TreeNode (urls domainNode)
               (insertPath u pathParts domainKey (children domainNode))
               (count' domainNode) (path domainNode)))"

definition domainTree :: "'n runtime \<Rightarrow> string \<Rightarrow> string list \<Rightarrow> TreeNode" where
  "domainTree rt domainKey domainUrls =
     (let domainNode = foldl (addUrl rt domainKey) (TreeNode [] [] 0 domainKey) domainUrls
      in TreeNode (urls domainNode) (children domainNode) (length domainUrls) (path domainNode))"

text \<open>\<open>updateCounts\<close> recomputes the count of every node from the leaves up.\<close>

fun updateCounts :: "TreeNode \<Rightarrow> TreeNode" where
  "updateCounts (TreeNode us cs c p) =
     (let cs' = map (\<lambda>kc. (fst kc, updateCounts (snd kc))) cs
      in TreeNode us cs' (length us + sum_list (map (\<lambda>kc. count' (snd kc)) cs')) p)"

definition buildUrlTree :: "'n runtime \<Rightarrow> string list \<Rightarrow> (string \<times> TreeNode) list" where
  "buildUrlTree rt us =
     (let urlsByDomain = foldl (groupUrl rt) [] us;
          tree = foldl (\<lambda>tree (domainKey, domainUrls).
                          put tree domainKey (domainTree rt domainKey domainUrls))
                   [] urlsByDomain
      in map (\<lambda>kn. (fst kn, updateCounts (snd kn))) tree)"

text \<open>\<open>getNodeUrls\<close> of the tree view: the URLs of a node and of everything below it.\<close>

fun getNodeUrls :: "TreeNode \<Rightarrow> string list" where
  "getNodeUrls (TreeNode us cs c p) = us @ concat (map (\<lambda>kc. getNodeUrls (snd kc)) cs)"

text \<open>The invariant of the counts, at a node and at every node below it.\<close>

fun counts_ok :: "TreeNode \<Rightarrow> bool" where
  "counts_ok (TreeNode us cs c p) =
     (c = length us + sum_list (map (\<lambda>kc. count' (snd kc)) cs)
      \<and> (\<forall>kc \<in> set cs. counts_ok (snd kc)))"

text \<open>The nodes of a tree: a node and everything below it.\<close>

fun nodes :: "TreeNode \<Rightarrow> TreeNode list" where
  "nodes (TreeNode us cs c p) = TreeNode us cs c p # concat (map (\<lambda>kc. nodes (snd kc)) cs)"

text \<open>A URL that parses and none of whose path parts names an inherited property.\<close>

definition parses :: "'n runtime \<Rightarrow> string \<Rightarrow> bool" where
  "parses rt u = (URL_new rt u \<noteq> None)"

definition plainParts :: "'n runtime \<Rightarrow> string \<Rightarrow> bool" where
  "plainParts rt u =
     (case URL_new rt u of
        None \<Rightarrow> True
      | Some urlObj \<Rightarrow> \<forall>part \<in> set (pathPartsOf urlObj). part \<notin> set Object_prototype_keys)"

text \<open>A parser for the plain addresses of the examples: a scheme of \<open>http\<close> or \<open>https\<close>,
  a host, and a path that starts at the first slash.\<close>

definition simple_URL :: "string \<Rightarrow> URL option" where
  "simple_URL s =
     (let scheme = (if startsWith s ''https://'' then ''https:''
                    else if startsWith s ''http://'' then ''http:'' else []);
          rest = drop (length scheme + 2) s;
          host = takeWhile (\<lambda>c. c \<noteq> CHR ''/'') rest;
          p = dropWhile (\<lambda>c. c \<noteq> CHR ''/'') rest
      in if scheme = [] \<or> host = [] then None
         else Some \<lparr>protocol = scheme, hostname = host, pathname = (if p = [] then ''/'' else p)\<rparr>)"

definition browser_runtime :: "int runtime" where
  "browser_runtime = sample_runtime\<lparr>URL_new := simple_URL\<rparr>"

text \<open>For the proofs: the URLs below a list of children, and the trees in which no node is
  filed under the name of an inherited property (the walk never creates such a node).\<close>

definition below :: "(string \<times> TreeNode) list \<Rightarrow> string list" where
  "below cs = concat (map (\<lambda>kc. getNodeUrls (snd kc)) cs)"

fun own_keys_plain :: "TreeNode \<Rightarrow> bool" where
  "own_keys_plain (TreeNode us cs c p) =
     (\<forall>kc \<in> set cs. fst kc \<notin> set Object_prototype_keys \<and> own_keys_plain (snd kc))"

definition plain_children :: "(string \<times> TreeNode) list \<Rightarrow> bool" where
  "plain_children cs =
     (\<forall>kc \<in> set cs. fst kc \<notin> set Object_prototype_keys \<and> own_keys_plain (snd kc))"

text \<open>The sum of the counts of the roots, and the addresses of an example.\<close>

definition totalCount :: "(string \<times> TreeNode) list \<Rightarrow> nat" where
  "totalCount tree = sum_list (map (\<lambda>kr. count' (snd kr)) tree)"

definition site_urls :: "string list" where
  "site_urls = [''https://www.a.example/'', ''https://a.example/blog/x'',
                ''https://a.example/blog'', ''http://b.example/p'']"

section \<open>The export formatter (page component)\<close>

subsection \<open>String helpers\<close>

text \<open>The decimal text of a natural number, as a template literal prints an index.\<close>

fun decimal :: "nat \<Rightarrow> string" where
  "decimal n =
     (if n < 10 then [digits ! n] else decimal (n div 10) @ [digits ! (n mod 10)])"

declare decimal.simps [simp del]

text \<open>\<open>s.replace(/"/g, '""')\<close> and \<open>s.replace(/\r?\n/g, ' ')\<close>.\<close>

fun doubleQuotes :: "string \<Rightarrow> string" where
  "doubleQuotes [] = []"
| "doubleQuotes (c # cs) = (if c = DQ then DQ # DQ # doubleQuotes cs else c # doubleQuotes cs)"

fun newlinesToSpaces :: "string \<Rightarrow> string" where
  "newlinesToSpaces [] = []"
| "newlinesToSpaces [c] = (if c = LF then '' '' else [c])"
| "newlinesToSpaces (c # d # cs) =
     (if c = CR \<and> d = LF then CHR '' '' # newlinesToSpaces cs
      else if c = LF then CHR '' '' # newlinesToSpaces (d # cs)
      else c # newlinesToSpaces (d # cs))"

text \<open>\<open>s.replace(re, '-')\<close> for a pattern \<open>[...]+\<close> with the \<open>g\<close> flag: every maximal run of
  characters of the class becomes one hyphen.\<close>

function replaceRuns :: "(char \<Rightarrow> bool) \<Rightarrow> string \<Rightarrow> string" where
  "replaceRuns P [] = []"
| "replaceRuns P (c # cs) =
     (if P c then CHR ''-'' # replaceRuns P (dropWhile P cs) else c # replaceRuns P cs)"
  by pat_completeness auto
termination
  by (relation "measure (\<lambda>(P, s). length s)") (auto simp: length_dropWhile_le less_Suc_eq_le)

text \<open>\<open>s.replace(/^-|-$/g, '')\<close>: a hyphen at the start goes, and a hyphen at the end.\<close>

definition stripHyphens :: "string \<Rightarrow> string" where
  "stripHyphens s =
     (let s1 = (case s of c # cs \<Rightarrow> if c = CHR ''-'' then cs else s | [] \<Rightarrow> [])
      in if s1 \<noteq> [] \<and> last s1 = CHR ''-'' then butlast s1 else s1)"

definition slugChar :: "char \<Rightarrow> bool" where
  "slugChar c = (c \<in> set lowers \<or> c \<in> set digits)"

subsection \<open>Shopify\<close>

definition shopifyHeaders :: "string list" where
  "shopifyHeaders =
     [''Handle'', ''Title'', ''Body (HTML)'', ''Vendor'', ''Type'', ''Tags'', ''Published'',
      ''Option1 Name'', ''Option1 Value'', ''Variant SKU'', ''Variant Grams'',
      ''Variant Inventory Tracker'', ''Variant Inventory Qty'', ''Variant Inventory Policy'',
      ''Variant Fulfillment Service'', ''Variant Price'', ''Variant Compare At Price'',
      ''Variant Requires Shipping'', ''Variant Taxable'', ''Variant Barcode'',
      ''Image Src'', ''Image Position'', ''Image Alt Text'', ''Gift Card'',
      ''SEO Title'', ''SEO Description'', ''Variant Weight Unit'', ''Status'']"

text \<open>\<open>String(a || b)\<close> and \<open>String(a || b || c)\<close> with a literal last.\<close>

definition str_or :: "'n runtime \<Rightarrow> 'n jsval \<Rightarrow> string \<Rightarrow> string" where
  "str_or rt a dflt = ToString rt (or_else rt a (JStr dflt))"

definition str_or2 :: "'n runtime \<Rightarrow> 'n jsval \<Rightarrow> 'n jsval \<Rightarrow> string \<Rightarrow> string" where
  "str_or2 rt a b dflt = ToString rt (or_else rt (or_else rt a b) (JStr dflt))"

definition shopifyTitle :: "'n runtime \<Rightarrow> 'n obj \<Rightarrow> nat \<Rightarrow> string" where
  "shopifyTitle rt item index = str_or rt (get item ''title'') (''Product '' @ decimal (index + 1))"

definition shopifyHandle :: "string \<Rightarrow> string" where
  "shopifyHandle title =
     stripHyphens
       (replaceRuns (\<lambda>c. c = CHR ''-'')
          (replaceRuns (\<lambda>c. \<not> slugChar c) (toLowerCase title)))"

text \<open>The object \<open>row\<close>, property by property.\<close>

definition shopifyRow :: "'n runtime \<Rightarrow> 'n obj \<Rightarrow> nat \<Rightarrow> (string \<times> string) list" where
  "shopifyRow rt item index =
     (let title = shopifyTitle rt item index;
          handle = shopifyHandle title;
          hasImage = truthy rt (or_else rt (get item ''image_url'') (get item ''image''))
      in
      [(''Handle'', handle),
       (''Title'', title),
       (''Body (HTML)'', str_or2 rt (get item ''description'') (get item ''content'') []),
       (''Vendor'', str_or rt (get item ''vendor'') ''Default Vendor''),
       (''Type'', str_or2 rt (get item ''product_type'') (get item ''type'') []),
       (''Tags'', str_or rt (get item ''tags'') []),
       (''Published'', ''TRUE''),
       (''Option1 Name'', ''Title''),
       (''Option1 Value'', ''Default Title''),
       (''Variant SKU'', str_or rt (get item ''sku'') []),
       (''Variant Grams'', str_or rt (get item ''weight'') ''0''),
       (''Variant Inventory Tracker'', ''shopify''),
       (''Variant Inventory Qty'',
          str_or2 rt (get item ''inventory_quantity'') (get item ''stock'') ''0''),
       (''Variant Inventory Policy'', ''deny''),
       (''Variant Fulfillment Service'', ''manual''),
       (''Variant Price'', str_or rt (get item ''price'') ''0''),
       (''Variant Compare At Price'', str_or rt (get item ''compare_at_price'') []),
       (''Variant Requires Shipping'', ''TRUE''),
       (''Variant Taxable'', ''TRUE''),
       (''Variant Barcode'', str_or rt (get item ''barcode'') []),
       (''Image Src'', str_or2 rt (get item ''image_url'') (get item ''image'') []),
       (''Image Position'', if hasImage then ''1'' else []),
       (''Image Alt Text'', if hasImage then title else []),
       (''Gift Card'', ''FALSE''),
       (''SEO Title'', take 70 title),
       (''SEO Description'',
          take 320 (str_or2 rt (get item ''description'') (get item ''content'') [])),
       (''Variant Weight Unit'', ''g''),
       (''Status'', ''active'')])"

text \<open>A value that contains a quote, a comma or a line feed is quoted.\<close>

definition needsQuotes :: "string \<Rightarrow> bool" where
  "needsQuotes v = (includes_str v [DQ] \<or> includes_str v '','' \<or> includes_str v [LF])"

definition csvCell :: "string \<Rightarrow> string" where
  "csvCell v =
     (if needsQuotes v then [DQ] @ newlinesToSpaces (doubleQuotes v) @ [DQ] else v)"

text \<open>\<open>headers.map(header => ... row[header] ...)\<close>: reading a header that the row does not
  have would give \<open>undefined\<close>, and \<open>value.includes\<close> would throw.\<close>

fun rowCells :: "(string \<times> string) list \<Rightarrow> string list \<Rightarrow> thrown + string list" where
  "rowCells row [] = Inr []"
| "rowCells row (header # hs) =
     (case map_of row header of
        None \<Rightarrow> Inl TypeError_undefined
      | Some v \<Rightarrow> (case rowCells row hs of Inl e \<Rightarrow> Inl e | Inr cells \<Rightarrow> Inr (csvCell v # cells)))"

fun shopifyRows :: "'n runtime \<Rightarrow> 'n obj list \<Rightarrow> nat \<Rightarrow> thrown + string list" where
  "shopifyRows rt [] index = Inr []"
| "shopifyRows rt (item # rest) index =
     (case rowCells (shopifyRow rt item index) shopifyHeaders of
        Inl e \<Rightarrow> Inl e
      | Inr cells \<Rightarrow>
          (case shopifyRows rt rest (index + 1) of
             Inl e \<Rightarrow> Inl e
           | Inr rows \<Rightarrow> Inr (join '','' cells # rows)))"

definition formatShopifyCSV :: "'n runtime \<Rightarrow> 'n obj list \<Rightarrow> thrown + string" where
  "formatShopifyCSV rt data_in =
     (if data_in = [] then Inr []
      else (case shopifyRows rt data_in 0 of
              Inl e \<Rightarrow> Inl e
            | Inr rows \<Rightarrow> Inr (join [LF] (join '','' shopifyHeaders # rows))))"

subsection \<open>Reading CSV\<close>








subsection \<open>Generic CSV\<close>

text \<open>\<open>convertToCSV\<close>: the keys of the first record make the header; a string is cleaned
  and quoted, any other value is left to \<open>join\<close>, which prints \<open>null\<close> and \<open>undefined\<close> as
  nothing.\<close>

definition genericCell :: "'n runtime \<Rightarrow> 'n jsval \<Rightarrow> string" where
  "genericCell rt v =
     (case v of
        JStr s \<Rightarrow> [DQ] @ doubleQuotes (newlinesToSpaces s) @ [DQ]
      | _ \<Rightarrow> ToString_elem rt v)"

definition convertToCSV :: "'n runtime \<Rightarrow> 'n obj list \<Rightarrow> string" where
  "convertToCSV rt recs =
     (case recs of
        [] \<Rightarrow> []
      | first # _ \<Rightarrow>
          join [LF]
            (join '','' (map fst first)
             # map (\<lambda>item. join '','' (map (\<lambda>kv. genericCell rt (snd kv)) item)) recs))"

subsection \<open>WordPress\<close>

text \<open>The clock: \<open>formatWPDate(now)\<close>, \<open>now.toUTCString()\<close>, the \<open>new Date().toUTCString()\<close>
  of the channel, and \<open>Date.now()\<close>.\<close>

record clock =
  currentDate :: string
  nowUTC :: string
  channelUTC :: string
  timestamp :: nat

text \<open>\<open>title.toLowerCase().replace(/\s+/g, '-').replace(/[^a-z0-9-]/g, '')\<close>.\<close>

definition postName :: "string \<Rightarrow> string" where
  "postName t =
     filter (\<lambda>c. slugChar c \<or> c = CHR ''-'') (replaceRuns isWhiteSpace (toLowerCase t))"

text \<open>The templates, piece by piece. The title is cast to a string, not converted: a title
  that is not a string has no \<open>toLowerCase\<close>, and the call throws.\<close>

definition postmetaEntry :: "'n runtime \<Rightarrow> string \<Rightarrow> 'n jsval \<Rightarrow> string" where
  "postmetaEntry rt key v =
     concat
      [[LF], ''      <wp:postmeta>'', [LF], ''        <wp:meta_key><![CDATA['', key,
       '']]></wp:meta_key>'', [LF], ''        <wp:meta_value><![CDATA['', ToString rt v,
       '']]></wp:meta_value>'', [LF], ''      </wp:postmeta>'']"

definition postmeta :: "'n runtime \<Rightarrow> 'n obj \<Rightarrow> string" where
  "postmeta rt item =
     concat (map (\<lambda>(key, v). postmetaEntry rt key v)
       (filter (\<lambda>(key, v). key \<notin> set [''title'', ''content'', ''description'', ''date'']) item))"

definition originalDate :: "'n runtime \<Rightarrow> 'n obj \<Rightarrow> string" where
  "originalDate rt item =
     (if truthy rt (get item ''date'') then
        concat
         [[LF], ''      <wp:postmeta>'', [LF],
          ''        <wp:meta_key><![CDATA[original_date]]></wp:meta_key>'', [LF],
          ''        <wp:meta_value><![CDATA['', ToString rt (get item ''date''),
          '']]></wp:meta_value>'', [LF], ''      </wp:postmeta>'']
      else [])"

definition wpItem :: "'n runtime \<Rightarrow> clock \<Rightarrow> 'n obj \<Rightarrow> nat \<Rightarrow> thrown + string" where
  "wpItem rt clock item index =
     (let content = or_else rt (or_else rt (get item ''content'') (get item ''description'')) (JStr []);
          title = or_else rt (get item ''title'') (JStr (''Post '' @ decimal (index + 1)))
      in case title of
           JStr t \<Rightarrow>
             Inr (concat
               [[LF], ''    <item>'', [LF], ''      <title><![CDATA['', ToString rt title,
                '']]></title>'', [LF], ''      <link>https://example.com/?p='',
                decimal (index + 1), ''</link>'', [LF], ''      <pubDate>'', nowUTC clock,
                ''</pubDate>'', [LF], ''      <dc:creator><![CDATA[admin]]></dc:creator>'',
                [LF], ''      <guid isPermaLink='', [DQ], ''false'', [DQ],
                ''>https://example.com/?p='', decimal (index + 1), ''</guid>'', [LF],
                ''      <description></description>'', [LF],
                ''      <content:encoded><![CDATA['', ToString rt content,
                '']]></content:encoded>'', [LF],
                ''      <excerpt:encoded><![CDATA[]]></excerpt:encoded>'', [LF],
                ''      <wp:post_id>'', decimal (index + 1), ''</wp:post_id>'', [LF],
                ''      <wp:post_date><![CDATA['', currentDate clock,
                '']]></wp:post_date>'', [LF], ''      <wp:post_date_gmt><![CDATA['',
                currentDate clock, '']]></wp:post_date_gmt>'', [LF],
                ''      <wp:post_modified><![CDATA['', currentDate clock,
                '']]></wp:post_modified>'', [LF],
                ''      <wp:post_modified_gmt><![CDATA['', currentDate clock,
                '']]></wp:post_modified_gmt>'', [LF],
                ''      <wp:comment_status><![CDATA[closed]]></wp:comment_status>'', [LF],
                ''      <wp:ping_status><![CDATA[closed]]></wp:ping_status>'', [LF],
                ''      <wp:post_name><![CDATA['', postName t, '']]></wp:post_name>'',
                [LF], ''      <wp:status><![CDATA[publish]]></wp:status>'', [LF],
                ''      <wp:post_parent>0</wp:post_parent>'', [LF],
                ''      <wp:menu_order>0</wp:menu_order>'', [LF],
                ''      <wp:post_type><![CDATA[post]]></wp:post_type>'', [LF],
                ''      <wp:post_password><![CDATA[]]></wp:post_password>'', [LF],
                ''      <wp:is_sticky>0</wp:is_sticky>'', [LF], ''      '',
                postmeta rt item, [LF], ''      '', originalDate rt item, [LF],
                ''    </item>''])
         | _ \<Rightarrow> Inl (Error ''title.toLowerCase is not a function''))"

fun wpItems :: "'n runtime \<Rightarrow> clock \<Rightarrow> 'n obj list \<Rightarrow> nat \<Rightarrow> thrown + string" where
  "wpItems rt clock [] index = Inr []"
| "wpItems rt clock (item # rest) index =
     (case wpItem rt clock item index of
        Inl e \<Rightarrow> Inl e
      | Inr x \<Rightarrow> (case wpItems rt clock rest (index + 1) of Inl e \<Rightarrow> Inl e | Inr xs \<Rightarrow> Inr (x @ xs)))"

definition generateWordPressXML :: "'n runtime \<Rightarrow> clock \<Rightarrow> 'n obj list \<Rightarrow> thrown + string" where
  "generateWordPressXML rt clock recs =
     (case wpItems rt clock recs 0 of
        Inl e \<Rightarrow> Inl e
      | Inr items_text \<Rightarrow>
          Inr (concat
            [''<?xml version='', [DQ], ''1.0'', [DQ], '' encoding='', [DQ], ''UTF-8'',
             [DQ], ''?>'', [LF],
             ''<!-- This is a WordPress eXtended RSS file generated by Firecrawl Content Migrator -->'',
             [LF], ''<!-- It contains information about your site'', [CHR 0x27],
             ''s posts, pages, comments, categories, and other content -->'', [LF],
             ''<!-- You may use this file to transfer that content from one site to another -->'',
             [LF],
             ''<!-- This file is not intended to serve as a complete backup of your site -->'',
             [LF], [LF], ''<!-- generator='', [DQ], ''Firecrawl Content Migrator'', [DQ],
             '' created='', [DQ], currentDate clock, [DQ], '' -->'', [LF],
             ''<rss version='', [DQ], ''2.0'', [DQ], [LF], ''  xmlns:excerpt='', [DQ],
             ''http://wordpress.org/export/1.2/excerpt/'', [DQ], [LF],
             ''  xmlns:content='', [DQ], ''http://purl.org/rss/1.0/modules/content/'',
             [DQ], [LF], ''  xmlns:wfw='', [DQ], ''http://wellformedweb.org/CommentAPI/'',
             [DQ], [LF], ''  xmlns:dc='', [DQ], ''http://purl.org/dc/elements/1.1/'', [DQ],
             [LF], ''  xmlns:wp='', [DQ], ''http://wordpress.org/export/1.2/'', [DQ], [LF],
             ''>'', [LF], ''  <channel>'', [LF], ''    <title>Imported Content</title>'',
             [LF], ''    <link>https://example.com</link>'', [LF],
             ''    <description>Content imported from Firecrawl</description>'', [LF],
             ''    <pubDate>'', channelUTC clock, ''</pubDate>'', [LF],
             ''    <language>en-US</language>'', [LF],
             ''    <wp:wxr_version>1.2</wp:wxr_version>'', [LF],
             ''    <wp:base_site_url>https://example.com</wp:base_site_url>'', [LF],
             ''    <wp:base_blog_url>https://example.com</wp:base_blog_url>'', [LF],
             ''    '', [LF], ''    <wp:author>'', [LF],
             ''      <wp:author_id>1</wp:author_id>'', [LF],
             ''      <wp:author_login><![CDATA[admin]]></wp:author_login>'', [LF],
             ''      <wp:author_email><![CDATA[admin@example.com]]></wp:author_email>'',
             [LF],
             ''      <wp:author_display_name><![CDATA[Admin]]></wp:author_display_name>'',
             [LF], ''      <wp:author_first_name><![CDATA[]]></wp:author_first_name>'',
             [LF], ''      <wp:author_last_name><![CDATA[]]></wp:author_last_name>'', [LF],
             ''    </wp:author>'', [LF], ''    '', [LF],
             ''    <generator>https://firecrawl.dev/?v=1.0</generator>'', [LF], items_text,
             [LF], ''  </channel>'', [LF], ''</rss>'']))"

subsection \<open>Formats, batches and the archive\<close>

definition formatExportData ::
  "'n runtime \<Rightarrow> clock \<Rightarrow> 'n obj list \<Rightarrow> string \<Rightarrow> thrown + string" where
  "formatExportData rt clock recs format =
     (if format = ''json'' then Inr (JSON_stringify rt (JArr (map JObj recs)) 2)
      else if format = ''shopify'' then formatShopifyCSV rt recs
      else if format \<in> set [''csv'', ''woocommerce'', ''drupal'', ''wix''] then
        Inr (convertToCSV rt recs)
      else if format \<in> set [''wordpress'', ''squarespace''] then generateWordPressXML rt clock recs
      else if format = ''webflow'' then
        Inr (JSON_stringify rt (JObj [(''items'', JArr (map JObj recs))]) 2)
      else Inr (JSON_stringify rt (JArr (map JObj recs)) 2))"

text \<open>\<open>extensions[format] || 'txt'\<close> in \<open>downloadBatchedFiles\<close>.\<close>

definition extensions :: "(string \<times> string) list" where
  "extensions =
     [(''json'', ''json''), (''csv'', ''csv''), (''wordpress'', ''xml''), (''woocommerce'', ''csv''),
      (''shopify'', ''csv''), (''webflow'', ''json''), (''drupal'', ''csv''),
      (''squarespace'', ''xml''), (''wix'', ''csv'')]"

definition extensionOf :: "'n runtime \<Rightarrow> string \<Rightarrow> string" where
  "extensionOf rt format =
     (case map_of extensions format of
        Some ext \<Rightarrow> ext
      | None \<Rightarrow> if format \<in> set Object_prototype_keys then inheritedText rt format else ''txt'')"

text \<open>
  The loop that cuts the batches: \<open>for (let i = 0; i < data.length; i += size)\<close> with
  \<open>data.slice(i, i + size)\<close>. With a size of 0 the loop does not end; \<open>None\<close> is a
  computation that does not return.
\<close>

partial_function (option) batchesLoop ::
  "'a list \<Rightarrow> nat \<Rightarrow> nat \<Rightarrow> 'a list list \<Rightarrow> 'a list list option" where
  "batchesLoop recs size' i batches =
     (if i < length recs
      then batchesLoop recs size' (i + size') (batches @ [take size' (drop i recs)])
      else Some batches)"

text \<open>The second loop adds one file for each batch; \<open>zip.file\<close> replaces a file of the
  same name.\<close>

definition partName :: "nat \<Rightarrow> string \<Rightarrow> string" where
  "partName i ext = ''export-part'' @ decimal (i + 1) @ ''.'' @ ext"

fun zipBatches ::
  "'n runtime \<Rightarrow> clock \<Rightarrow> string \<Rightarrow> string \<Rightarrow> 'n obj list list \<Rightarrow> nat
     \<Rightarrow> (string \<times> string) list \<Rightarrow> thrown + (string \<times> string) list" where
  "zipBatches rt clock format ext [] i zip' = Inr zip'"
| "zipBatches rt clock format ext (batch # rest) i zip' =
     (case formatExportData rt clock batch format of
        Inl e \<Rightarrow> Inl e
      | Inr exportData \<Rightarrow>
          zipBatches rt clock format ext rest (i + 1) (put zip' (partName i ext) exportData))"

text \<open>An archive: its name and its files.\<close>

record archive =
  archive_name :: string
  files :: "(string \<times> string) list"

definition downloadBatchedFiles ::
  "'n runtime \<Rightarrow> clock \<Rightarrow> 'n obj list \<Rightarrow> nat \<Rightarrow> string \<Rightarrow> (thrown + archive) option" where
  "downloadBatchedFiles rt clock recs size' format =
     (case batchesLoop recs size' 0 [] of
        None \<Rightarrow> None
      | Some batches \<Rightarrow>
          Some (case zipBatches rt clock format (extensionOf rt format) batches 0 [] of
                  Inl e \<Rightarrow> Inl e
                | Inr zip' \<Rightarrow>
                    Inr \<lparr>archive_name = ''export-'' @ decimal (timestamp clock) @ ''.zip'',
                         files = zip'\<rparr>))"

text \<open>The batch of index \<open>k\<close>, the number of batches, and an example of 127 records.\<close>

definition batchOf :: "'a list \<Rightarrow> nat \<Rightarrow> nat \<Rightarrow> 'a list" where
  "batchOf recs size' k = take size' (drop (k * size') recs)"

definition batchCount :: "nat \<Rightarrow> nat \<Rightarrow> nat" where
  "batchCount n size' = (n + size' - 1) div size'"

definition many_records :: "nat \<Rightarrow> int obj list" where
  "many_records n = map (\<lambda>i. [(''id'', JNum (int i))]) [0 ..< n]"

definition sample_clock :: clock where
  "sample_clock =
     \<lparr>currentDate = ''2024-10-21 09:30:00'', nowUTC = ''Mon, 21 Oct 2024 09:30:00 GMT'',
      channelUTC = ''Mon, 21 Oct 2024 09:30:00 GMT'', timestamp = 1729503000000\<rparr>"

declare batchesLoop.simps [code]

section \<open>Properties\<close>

subsection \<open>Date extraction\<close>

lemma firstMatch_abbrev:
  "firstMatch datePatterns ''Published Oct 21, 2024'' =
     Some \<lparr>matched = ''Oct 21, 2024'', groups = [(1, ''Oct'')]\<rparr>"
  by code_simp

lemma firstMatch_iso:
  "firstMatch datePatterns ''2024-03-05'' =
     Some \<lparr>matched = ''2024-03-05'', groups = [(1, ''2024-03-05'')]\<rparr>"
  by code_simp

lemma firstMatch_none:
  "firstMatch datePatterns ''no date in this text'' = None"
  by code_simp

text \<open>
  C4. The date patterns are tried in the order ISO, month/day/year, full month name,
  day and abbreviated month, abbreviated month and day; the first pattern that matches decides
  and no match gives the empty string. What is returned is capture group 1 of the match, and
  in the two patterns that start with the name of the month the group holds that name alone:
  on \<open>Published Oct 21, 2024\<close> the fifth pattern matches \<open>Oct 21, 2024\<close> and the function
  returns \<open>Oct\<close>. The other two examples of the claim come out as the claim says.
\<close>

theorem extractDateFromMarkdown_examples:
  "extractDateFromMarkdown ''Published Oct 21, 2024'' = JStr ''Oct''
   \<and> extractDateFromMarkdown ''2024-03-05'' = JStr ''2024-03-05''
   \<and> extractDateFromMarkdown ''no date in this text'' = JStr ''''"
  by (simp add: extractDateFromMarkdown_def firstMatch_abbrev firstMatch_iso firstMatch_none
      group_def)

subsection \<open>The crawl handler\<close>

text \<open>Every successful response comes from one path through the handler.\<close>

lemma POST_Ok_cases:
  assumes "POST rt apiKey app body_json w = (Ok r, w')"
  obtains body u finalSchema selected w1 crawlResult where
    "body_json = Inr body" "req_url body = Some u" "u \<noteq> []" "\<not> apiKeyMissing apiKey"
    "resolveSchema app u (req_schema body) (case req_autoInfer body of Some b \<Rightarrow> b | None \<Rightarrow> False) w
       = (Inr (Some finalSchema), w1)"
    "req_selectedUrls body = Some selected" "selected \<noteq> []"
    "crawl rt app (scrapeOptionsFor finalSchema (case req_maxAge body of Some a \<Rightarrow> a | None \<Rightarrow> 0))
       selected w1 = (crawlResult, w')"
    "extractAll rt finalSchema (cr_data crawlResult) = Inr (res_data r)"
    "completed r = (if cr_completed crawlResult \<noteq> 0 then cr_completed crawlResult
                    else length (res_data r))"
    "strategy r = ''mapCrawl''"
    "creditsUsed r = length selected + 2"
  using assms
  unfolding POST_def POST_try_def Let_def
  by (auto split: sum.splits option.splits if_splits prod.splits)

lemma extractPage_emitted:
  "extractPage rt finalSchema pg = Inr r \<Longrightarrow> emitted rt finalSchema pg r"
  by (auto simp: emitted_def extractPage_def split: option.splits)

lemma extractAll_emitted:
  "extractAll rt finalSchema pgs = Inr rs \<Longrightarrow> list_all2 (emitted rt finalSchema) pgs rs"
proof (induction pgs arbitrary: rs)
  case Nil
  then show ?case by simp
next
  case (Cons pg pgs)
  from Cons.prems obtain r rs' where
    r: "extractPage rt finalSchema pg = Inr r" and
    rs': "extractAll rt finalSchema pgs = Inr rs'" and
    rs: "rs = r # rs'"
    by (auto split: sum.splits)
  show ?case
    using extractPage_emitted [OF r] Cons.IH [OF rs'] rs by simp
qed

lemma fetchSucceeded_simps [simp]:
  "fetchSucceeded (Inl e) = False"
  "fetchSucceeded (Inr r) = success r"
  by (simp_all add: fetchSucceeded_def)

lemma success_failedEntry [simp]: "\<not> success (failedEntry u e)"
  by (simp add: failedEntry_def)

lemma fallbackLoop_succeeded:
  "length (filter success (fst (fallbackLoop app opts selected w)))
     = length (filter fetchSucceeded (fetchOutcomes app opts selected w))"
proof (induction selected arbitrary: w)
  case Nil
  show ?case by simp
next
  case (Cons u us)
  obtain out w1 where call: "scrapeUrl app u opts w = (out, w1)"
    by (cases "scrapeUrl app u opts w")
  obtain rs w2 where rest: "fallbackLoop app opts us w1 = (rs, w2)"
    by (cases "fallbackLoop app opts us w1")
  have ih: "length (filter success rs) = length (filter fetchSucceeded (fetchOutcomes app opts us w1))"
    using Cons.IH [of w1] rest by simp
  show ?case
    using call rest ih by (cases out) simp_all
qed


lemma POST_failing_batch:
  "POST sample_runtime (Some ''fc-key'') failing_batch_app (Inr (sample_request five_urls)) 0
     = (Ok fallback_response, 6)"
  by code_simp

lemma POST_bulk:
  "POST sample_runtime (Some ''fc-key'') bulk_app (Inr (sample_request five_urls)) 0
     = (Ok bulk_response, 1)"
  by code_simp

text \<open>
  C1 (as amended). The handler answers a request without a URL first (status 400), then a
  missing API key (status 500), then resolves the schema, which with \<open>autoInfer\<close> and no
  schema fetches a sample page; only then does it look at the schema and at the selection.
  So, when the API key is configured and the sample fetch, if there is one, does not throw:
  a request whose selection is absent or empty, or that has neither a schema nor
  \<open>autoInfer\<close>, is answered with status 400 and without records.
\<close>

theorem POST_configuration_error:
  assumes key: "\<not> apiKeyMissing apiKey"
    and sample: "req_autoInfer body = Some True \<and> req_schema body = None
                 \<longrightarrow> \<not> isl (fst (scrapeUrl app (case req_url body of Some x \<Rightarrow> x | None \<Rightarrow> [])
                                    sampleOptions w))"
    and bad: "req_selectedUrls body = None \<or> req_selectedUrls body = Some []
              \<or> (req_schema body = None \<and> req_autoInfer body \<noteq> Some True)"
  shows "\<exists>msg w'. POST rt apiKey app (Inr body) w = (Failed msg 400, w')
           \<and> records (Failed msg 400 :: 'n response) = []"
proof (cases "(case req_url body of Some x \<Rightarrow> x | None \<Rightarrow> []) = []")
  case True
  then show ?thesis
    by (simp add: POST_def POST_try_def records_def)
next
  case url: False
  show ?thesis
  proof (cases "req_autoInfer body = Some True \<and> req_schema body = None")
    case True
    with sample obtain res w1 where
      call: "scrapeUrl app (case req_url body of Some x \<Rightarrow> x | None \<Rightarrow> []) sampleOptions w = (Inr res, w1)"
      by (cases "scrapeUrl app (case req_url body of Some x \<Rightarrow> x | None \<Rightarrow> []) sampleOptions w";
          cases "fst (scrapeUrl app (case req_url body of Some x \<Rightarrow> x | None \<Rightarrow> []) sampleOptions w)")
         auto
    from True bad have sel: "req_selectedUrls body = None \<or> req_selectedUrls body = Some []"
      by auto
    from True call have
      "\<exists>fs. resolveSchema app (case req_url body of Some x \<Rightarrow> x | None \<Rightarrow> []) (req_schema body)
         (case req_autoInfer body of Some b \<Rightarrow> b | None \<Rightarrow> False) w = (Inr (Some fs), w1)"
      by (simp add: resolveSchema_def)
    then obtain fs where
      "resolveSchema app (case req_url body of Some x \<Rightarrow> x | None \<Rightarrow> []) (req_schema body)
         (case req_autoInfer body of Some b \<Rightarrow> b | None \<Rightarrow> False) w = (Inr (Some fs), w1)"
      by blast
    with url key sel show ?thesis
      by (auto simp: POST_def POST_try_def records_def)
  next
    case False
    then have rs:
      "resolveSchema app (case req_url body of Some x \<Rightarrow> x | None \<Rightarrow> []) (req_schema body)
         (case req_autoInfer body of Some b \<Rightarrow> b | None \<Rightarrow> False) w = (Inr (req_schema body), w)"
      by (auto simp: resolveSchema_def split: option.splits)
    show ?thesis
    proof (cases "req_schema body")
      case None
      with rs url key show ?thesis
        by (simp add: POST_def POST_try_def records_def)
    next
      case (Some fs)
      with bad have sel: "req_selectedUrls body = None \<or> req_selectedUrls body = Some []"
        by auto
      with rs url key Some show ?thesis
        by (auto simp: POST_def POST_try_def records_def)
    qed
  qed
qed

theorem POST_configuration_error_witness:
  "\<not> apiKeyMissing (Some ''fc-key'')
   \<and> req_selectedUrls (sample_request []) = Some []
   \<and> (\<exists>msg w'. POST sample_runtime (Some ''fc-key'') bulk_app (Inr (sample_request [])) (0::nat)
                    = (Failed msg 400, w'))"
proof -
  have key: "\<not> apiKeyMissing (Some ''fc-key'')"
    by (simp add: apiKeyMissing_def)
  have sample: "req_autoInfer (sample_request []) = Some True \<and> req_schema (sample_request []) = None
                 \<longrightarrow> \<not> isl (fst (scrapeUrl bulk_app
                            (case req_url (sample_request []) of Some x \<Rightarrow> x | None \<Rightarrow> [])
                            sampleOptions (0::nat)))"
    by (simp add: sample_request_def)
  have bad: "req_selectedUrls (sample_request []) = None \<or> req_selectedUrls (sample_request []) = Some []
              \<or> (req_schema (sample_request []) = None \<and> req_autoInfer (sample_request []) \<noteq> Some True)"
    by (simp add: sample_request_def)
  from POST_configuration_error [OF key sample bad, of sample_runtime] key show ?thesis
    by (auto simp: sample_request_def)
qed

text \<open>As stated, with no condition on the sample fetch, the claim fails: the selection is
  empty, the key is configured, the sample fetch throws, and the status is 500.\<close>

theorem POST_configuration_error_counterexample:
  "\<not> apiKeyMissing (Some ''fc-key'')
   \<and> req_selectedUrls sampling_request = Some []
   \<and> POST sample_runtime (Some ''fc-key'') bulk_app (Inr sampling_request) 0
         = (Failed ''connection refused'' 500, 1)"
  by (simp add: apiKeyMissing_def sampling_request_def POST_def POST_try_def resolveSchema_def
      bulk_app_def message_or_def)











text \<open>
  C3 (as amended). The strategy in a successful response is the constant \<open>mapCrawl\<close>,
  whichever path ran.
\<close>

theorem POST_strategy:
  assumes "POST rt apiKey app body_json w = (Ok r, w')"
  shows "strategy r = ''mapCrawl''"
  using assms by (elim POST_Ok_cases)

theorem POST_strategy_witness:
  "POST sample_runtime (Some ''fc-key'') failing_batch_app (Inr (sample_request five_urls)) 0
     = (Ok fallback_response, 6)
   \<and> strategy fallback_response = ''mapCrawl''"
  using POST_strategy [OF POST_failing_batch] POST_failing_batch by simp

text \<open>As stated the claim fails: the batch call succeeds and the strategy is neither
  \<open>bulk\<close> nor \<open>bulk_with_fallback\<close>.\<close>

theorem POST_strategy_counterexample:
  "\<not> batchFailed (fst (batchScrapeUrls bulk_app five_urls (scrapeOptionsFor getDefaultSchema 0) 0))
   \<and> strategy_of (fst (POST sample_runtime (Some ''fc-key'') bulk_app
                          (Inr (sample_request five_urls)) 0)) = Some ''mapCrawl''
   \<and> Some ''mapCrawl'' \<notin> {Some ''bulk'', Some ''bulk_with_fallback''}"
proof -
  have "\<not> batchFailed (fst (batchScrapeUrls bulk_app five_urls (scrapeOptionsFor getDefaultSchema 0) 0))"
    by (simp add: bulk_app_def batchFailed_def)
  moreover have "strategy_of (fst (POST sample_runtime (Some ''fc-key'') bulk_app
                   (Inr (sample_request five_urls)) 0)) = Some ''mapCrawl''"
    unfolding POST_bulk by (simp add: strategy_of_def bulk_response_def)
  ultimately show ?thesis by simp
qed

text \<open>
  C9. In every successful response \<open>creditsUsed\<close> is the number of selected URLs plus 2,
  whatever the fetcher does and reports.
\<close>

theorem POST_creditsUsed:
  assumes "POST rt apiKey app body_json w = (Ok r, w')"
  shows "\<exists>body selected. body_json = Inr body \<and> req_selectedUrls body = Some selected
           \<and> creditsUsed r = length selected + 2"
  using assms by (elim POST_Ok_cases) blast

theorem POST_creditsUsed_witness:
  "POST sample_runtime (Some ''fc-key'') bulk_app (Inr (sample_request five_urls)) 0
     = (Ok bulk_response, 1)
   \<and> creditsUsed bulk_response = length five_urls + 2"
  using POST_creditsUsed [OF POST_bulk] POST_bulk
  by (auto simp: sample_request_def)

text \<open>
  C10. In every successful response the records correspond one to one, in order, to the pages
  of the crawl: the record of a page with \<open>json\<close> is that object, the record of a page
  without \<open>json\<close> but with \<open>extract\<close> is that object, and only a page with neither has its
  record read from the markdown, field by field of the schema.
\<close>

theorem POST_structured_passthrough:
  assumes "POST rt apiKey app body_json w = (Ok r, w')"
  shows "\<exists>body u finalSchema selected w1.
           body_json = Inr body \<and> req_url body = Some u \<and> req_selectedUrls body = Some selected
           \<and> resolveSchema app u (req_schema body)
                 (case req_autoInfer body of Some b \<Rightarrow> b | None \<Rightarrow> False) w
               = (Inr (Some finalSchema), w1)
           \<and> list_all2 (emitted rt finalSchema)
                 (cr_data (fst (crawl rt app
                    (scrapeOptionsFor finalSchema (case req_maxAge body of Some a \<Rightarrow> a | None \<Rightarrow> 0))
                    selected w1)))
                 (res_data r)"
proof -
  from assms obtain body u finalSchema selected w1 crawlResult where
    a: "body_json = Inr body" "req_url body = Some u"
       "resolveSchema app u (req_schema body) (case req_autoInfer body of Some b \<Rightarrow> b | None \<Rightarrow> False) w
          = (Inr (Some finalSchema), w1)"
       "req_selectedUrls body = Some selected"
       "crawl rt app (scrapeOptionsFor finalSchema (case req_maxAge body of Some a \<Rightarrow> a | None \<Rightarrow> 0))
          selected w1 = (crawlResult, w')"
       "extractAll rt finalSchema (cr_data crawlResult) = Inr (res_data r)"
    by (elim POST_Ok_cases)
  from extractAll_emitted [OF a(6)] a show ?thesis by auto
qed

theorem POST_structured_passthrough_witness:
  "POST sample_runtime (Some ''fc-key'') bulk_app (Inr (sample_request five_urls)) 0
     = (Ok bulk_response, 1)
   \<and> list_all2 (emitted sample_runtime getDefaultSchema)
         (map (\<lambda>u. page.truncate (sample_page u)) five_urls) (res_data bulk_response)
   \<and> res_data bulk_response = map (\<lambda>u. [(''title'', JStr u)]) five_urls"
proof -
  from POST_structured_passthrough [OF POST_bulk]
  obtain body u finalSchema selected w1 where
    b: "Inr (sample_request five_urls) = (Inr body :: thrown + crawl_request)"
       "req_url body = Some u" "req_selectedUrls body = Some selected"
       "resolveSchema bulk_app u (req_schema body)
          (case req_autoInfer body of Some b \<Rightarrow> b | None \<Rightarrow> False) (0::nat)
        = (Inr (Some finalSchema), w1)"
       "list_all2 (emitted sample_runtime finalSchema)
          (cr_data (fst (crawl sample_runtime bulk_app
             (scrapeOptionsFor finalSchema (case req_maxAge body of Some a \<Rightarrow> a | None \<Rightarrow> 0))
             selected w1)))
          (res_data bulk_response)"
    by blast
  from b(1) have body: "body = sample_request five_urls" by simp
  from b(2,3,4) body have "u = ''https://a.example''" "selected = five_urls"
    "finalSchema = getDefaultSchema" "w1 = 0"
    by (simp_all add: sample_request_def resolveSchema_def)
  with b(5) body have
    "list_all2 (emitted sample_runtime getDefaultSchema)
       (map (\<lambda>u. page.truncate (sample_page u)) five_urls) (res_data bulk_response)"
    by (simp add: crawl_def bulk_app_def sample_request_def)
  then show ?thesis using POST_bulk by (simp add: bulk_response_def)
qed

subsection \<open>The URL tree\<close>

text \<open>The walk down the path parts adds the URL once when no part names an inherited
  property, and not at all otherwise; it never files a node under such a name.\<close>

lemma getNodeUrls_below: "getNodeUrls n = urls n @ below (children n)"
  by (cases n) (simp add: below_def)

lemma own_keys_plain_children: "own_keys_plain n = plain_children (children n)"
  by (cases n) (simp add: plain_children_def)

lemma below_simps [simp]:
  "below [] = []"
  "below ((k, n) # cs) = getNodeUrls n @ below cs"
  by (simp_all add: below_def)

lemma put_below_Some:
  "map_of cs k = Some n \<Longrightarrow>
     mset (below (put cs k n')) + mset (getNodeUrls n) = mset (below cs) + mset (getNodeUrls n')"
  by (induction cs) (auto split: if_splits)

lemma put_below_None:
  "map_of cs k = None \<Longrightarrow> mset (below (put cs k n')) = mset (below cs) + mset (getNodeUrls n')"
  by (induction cs) (auto split: if_splits)

lemma set_put: "set (put cs k v) \<subseteq> insert (k, v) (set cs)"
  by (induction cs) (auto split: if_splits)

lemma plain_children_put:
  "plain_children cs \<Longrightarrow> k \<notin> set Object_prototype_keys \<Longrightarrow> own_keys_plain n
     \<Longrightarrow> plain_children (put cs k n)"
  using set_put [of cs k n] unfolding plain_children_def by fastforce

lemma plain_children_lookup:
  assumes "plain_children cs" "map_of cs k = Some n"
  shows "k \<notin> set Object_prototype_keys \<and> plain_children (children n)"
proof -
  from assms(2) have "(k, n) \<in> set cs" by (rule map_of_SomeD)
  with assms(1) have "k \<notin> set Object_prototype_keys \<and> own_keys_plain n"
    unfolding plain_children_def by force
  then show ?thesis by (simp add: own_keys_plain_children)
qed

lemma insertPath_plain:
  "plain_children cs \<Longrightarrow> plain_children (insertPath u parts cp cs)"
proof (induction parts arbitrary: cp cs)
  case Nil
  then show ?case by simp
next
  case (Cons part rest)
  show ?case
  proof (cases "map_of cs part")
    case None
    show ?thesis
    proof (cases "part \<in> set Object_prototype_keys")
      case True
      with None Cons.prems show ?thesis by simp
    next
      case False
      have "plain_children (insertPath u rest (cp @ ''/'' @ part) [])"
        by (rule Cons.IH) (simp add: plain_children_def)
      then have "own_keys_plain (TreeNode (if rest = [] then [u] else [])
                   (insertPath u rest (cp @ ''/'' @ part) []) 0 (cp @ ''/'' @ part))"
        by (simp add: own_keys_plain_children)
      from plain_children_put [OF Cons.prems False this] None False show ?thesis
        by simp
    qed
  next
    case (Some n)
    from plain_children_lookup [OF Cons.prems Some]
    have k: "part \<notin> set Object_prototype_keys" and ch: "plain_children (children n)"
      by simp_all
    have "plain_children (insertPath u rest (cp @ ''/'' @ part) (children n))"
      by (rule Cons.IH [OF ch])
    then have "own_keys_plain (TreeNode (if rest = [] then urls n @ [u] else urls n)
                 (insertPath u rest (cp @ ''/'' @ part) (children n)) (count' n) (path n))"
      by (simp add: own_keys_plain_children)
    from plain_children_put [OF Cons.prems k this] Some show ?thesis
      by simp
  qed
qed

lemma insertPath_below:
  "plain_children cs \<Longrightarrow>
   mset (below (insertPath u parts cp cs)) =
     mset (below cs) +
       (if parts \<noteq> [] \<and> (\<forall>p \<in> set parts. p \<notin> set Object_prototype_keys) then {#u#} else {#})"
proof (induction parts arbitrary: cp cs)
  case Nil
  show ?case by simp
next
  case (Cons part rest)
  let ?extra = "if (\<forall>p \<in> set rest. p \<notin> set Object_prototype_keys) then {#u#} else {#}"
  have node: "mset (getNodeUrls (TreeNode (if rest = [] then us @ [u] else us)
                 (insertPath u rest cp' ch) c p)) =
              mset us + mset (below ch) + ?extra"
    if "plain_children ch" for us cp' ch c p
  proof (cases "rest = []")
    case True
    then show ?thesis by (simp add: getNodeUrls_below)
  next
    case False
    then show ?thesis
      using Cons.IH [OF that, of cp'] by (simp add: getNodeUrls_below)
  qed
  show ?case
  proof (cases "map_of cs part")
    case None
    show ?thesis
    proof (cases "part \<in> set Object_prototype_keys")
      case True
      with None show ?thesis by simp
    next
      case False
      define N where "N = TreeNode (if rest = [] then [u] else [])
                 (insertPath u rest (cp @ ''/'' @ part) []) 0 (cp @ ''/'' @ part)"
      have empty: "plain_children []" by (simp add: plain_children_def)
      have N: "mset (getNodeUrls N) = ?extra"
        unfolding N_def
        using node [OF empty, of "[]" "cp @ ''/'' @ part" 0 "cp @ ''/'' @ part"]
        by (cases "rest = []") (simp_all del: getNodeUrls.simps)
      have step: "insertPath u (part # rest) cp cs = put cs part N"
        using None False by (simp add: N_def)
      have "mset (below (put cs part N)) = mset (below cs) + mset (getNodeUrls N)"
        by (rule put_below_None [OF None])
      with N step False show ?thesis
        by simp
    qed
  next
    case (Some n)
    from plain_children_lookup [OF Cons.prems Some]
    have k: "part \<notin> set Object_prototype_keys" and ch: "plain_children (children n)"
      by simp_all
    define N where "N = TreeNode (if rest = [] then urls n @ [u] else urls n)
                 (insertPath u rest (cp @ ''/'' @ part) (children n)) (count' n) (path n)"
    have N: "mset (getNodeUrls N) = mset (getNodeUrls n) + ?extra"
      unfolding N_def
      using node [OF ch, of "urls n" "cp @ ''/'' @ part" "count' n" "path n"]
      by (cases "rest = []") (simp_all add: getNodeUrls_below [of n] del: getNodeUrls.simps)
    have step: "insertPath u (part # rest) cp cs = put cs part N"
      using Some by (simp add: N_def)
    have "mset (below (put cs part N)) + mset (getNodeUrls n)
            = mset (below cs) + mset (getNodeUrls N)"
      by (rule put_below_Some [OF Some])
    with N have "mset (below (put cs part N)) = mset (below cs) + ?extra"
      by simp
    with step k show ?thesis
      by simp
  qed
qed

lemma addUrl_urls:
  assumes "own_keys_plain node"
  shows "mset (getNodeUrls (addUrl rt k node u)) =
           mset (getNodeUrls node) + (if parses rt u \<and> plainParts rt u then {#u#} else {#})
         \<and> own_keys_plain (addUrl rt k node u)"
proof (cases "URL_new rt u")
  case None
  with assms show ?thesis by (simp add: addUrl_def parses_def)
next
  case (Some urlObj)
  from assms have ch: "plain_children (children node)"
    by (simp add: own_keys_plain_children)
  show ?thesis
  proof (cases "pathPartsOf urlObj = []")
    case True
    with Some assms show ?thesis
      by (simp add: addUrl_def parses_def plainParts_def getNodeUrls_below own_keys_plain_children
          del: getNodeUrls.simps)
  next
    case False
    with Some insertPath_below [OF ch, of u "pathPartsOf urlObj" k]
      insertPath_plain [OF ch, of u "pathPartsOf urlObj" k]
    show ?thesis
      by (simp add: addUrl_def parses_def plainParts_def getNodeUrls_below own_keys_plain_children
          del: getNodeUrls.simps)
  qed
qed

lemma foldl_addUrl_urls:
  "own_keys_plain node \<Longrightarrow>
   mset (getNodeUrls (foldl (addUrl rt k) node us)) =
     mset (getNodeUrls node) + mset (filter (\<lambda>u. parses rt u \<and> plainParts rt u) us)"
proof (induction us arbitrary: node)
  case Nil
  show ?case by simp
next
  case (Cons u us)
  from addUrl_urls [OF Cons.prems, of rt k u]
  have a: "mset (getNodeUrls (addUrl rt k node u)) =
             mset (getNodeUrls node) + (if parses rt u \<and> plainParts rt u then {#u#} else {#})"
    and b: "own_keys_plain (addUrl rt k node u)"
    by simp_all
  from Cons.IH [OF b] a show ?case by simp
qed

lemma domainTree_urls:
  "mset (getNodeUrls (domainTree rt k us)) = mset (filter (\<lambda>u. parses rt u \<and> plainParts rt u) us)"
proof -
  have "own_keys_plain (TreeNode [] [] 0 k)" by simp
  from foldl_addUrl_urls [OF this, of rt k us] show ?thesis
    by (simp add: domainTree_def Let_def getNodeUrls_below)
qed

lemma put_fst:
  "map fst (put m k v) = (if map_of m k = None then map fst m @ [k] else map fst m)"
  by (induction m) (auto split: if_splits)

lemma put_None: "map_of m k = None \<Longrightarrow> put m k v = m @ [(k, v)]"
  by (induction m) (auto split: if_splits)

lemma put_snd_Some:
  "map_of m k = Some l \<Longrightarrow>
     mset (concat (map snd (put m k (l @ [u])))) = mset (concat (map snd m)) + {#u#}"
  by (induction m) (auto split: if_splits)

lemma slash_in_domainKey: "CHR ''/'' \<in> set (domainKeyOf urlObj)"
  by (simp add: domainKeyOf_def)

lemma domainKey_not_inherited: "domainKeyOf urlObj \<notin> set Object_prototype_keys"
proof
  assume "domainKeyOf urlObj \<in> set Object_prototype_keys"
  moreover have "\<forall>k \<in> set Object_prototype_keys. CHR ''/'' \<notin> set k"
    by (simp add: Object_prototype_keys_def)
  ultimately show False using slash_in_domainKey [of urlObj] by blast
qed

lemma groupUrl_step:
  assumes "distinct (map fst m)"
  shows "distinct (map fst (groupUrl rt m u))
         \<and> mset (concat (map snd (groupUrl rt m u))) =
             mset (concat (map snd m)) + (if parses rt u then {#u#} else {#})"
proof (cases "URL_new rt u")
  case None
  with assms show ?thesis by (simp add: groupUrl_def parses_def)
next
  case (Some urlObj)
  show ?thesis
  proof (cases "map_of m (domainKeyOf urlObj)")
    case None
    then have "domainKeyOf urlObj \<notin> set (map fst m)"
      by (simp add: map_of_eq_None_iff)
    with None Some assms domainKey_not_inherited [of urlObj] show ?thesis
      by (simp add: groupUrl_def parses_def put_None)
  next
    case (Some l)
    with \<open>URL_new rt u = Some urlObj\<close> assms put_snd_Some [OF Some, of u] show ?thesis
      by (simp add: groupUrl_def parses_def put_fst)
  qed
qed

lemma foldl_groupUrl:
  "distinct (map fst m) \<Longrightarrow>
   distinct (map fst (foldl (groupUrl rt) m us))
   \<and> mset (concat (map snd (foldl (groupUrl rt) m us))) =
       mset (concat (map snd m)) + mset (filter (parses rt) us)"
proof (induction us arbitrary: m)
  case Nil
  then show ?case by simp
next
  case (Cons u us)
  from groupUrl_step [OF Cons.prems, of rt u]
  have d: "distinct (map fst (groupUrl rt m u))"
    and e: "mset (concat (map snd (groupUrl rt m u))) =
              mset (concat (map snd m)) + (if parses rt u then {#u#} else {#})"
    by simp_all
  from Cons.IH [OF d] e show ?case by simp
qed

lemma foldl_put_fresh:
  "distinct (map fst g) \<Longrightarrow> set (map fst acc) \<inter> set (map fst g) = {} \<Longrightarrow>
   foldl (\<lambda>tree (k, v). put tree k (f k v)) acc g = acc @ map (\<lambda>(k, v). (k, f k v)) g"
proof (induction g arbitrary: acc)
  case Nil
  show ?case by simp
next
  case (Cons kv g)
  obtain k v where kv: "kv = (k, v)" by (cases kv)
  from Cons.prems kv have fresh: "map_of acc k = None"
    by (auto simp: map_of_eq_None_iff)
  from Cons.prems kv have "distinct (map fst g)"
    and "set (map fst (acc @ [(k, f k v)])) \<inter> set (map fst g) = {}"
    by auto
  from Cons.IH [OF this] kv fresh show ?case
    by (simp add: put_None)
qed

lemma below_domainTrees:
  "mset (below (map (\<lambda>(k, v). (k, domainTree rt k v)) g)) =
     mset (filter (\<lambda>u. parses rt u \<and> plainParts rt u) (concat (map snd g)))"
  by (induction g) (auto simp: domainTree_urls)

lemma concat_map_cong:
  "(\<forall>x \<in> set xs. f x = g x) \<Longrightarrow> concat (map f xs) = concat (map g xs)"
  by (induction xs) auto

lemma distinct_concat_member:
  "distinct (concat xss) \<Longrightarrow> xs \<in> set xss \<Longrightarrow> distinct xs"
  by (induction xss) auto

lemma getNodeUrls_updateCounts: "getNodeUrls (updateCounts n) = getNodeUrls n"
proof (induction n rule: updateCounts.induct)
  case (1 us cs c p)
  then have "concat (map (\<lambda>kc. getNodeUrls (updateCounts (snd kc))) cs)
               = concat (map (\<lambda>kc. getNodeUrls (snd kc)) cs)"
    by (intro concat_map_cong) simp
  then show ?case by (simp add: Let_def comp_def)
qed

lemma counts_ok_updateCounts: "counts_ok (updateCounts n)"
  by (induction n rule: updateCounts.induct) (simp add: Let_def)

lemma counts_ok_length: "counts_ok n \<Longrightarrow> count' n = length (getNodeUrls n)"
proof (induction n rule: counts_ok.induct)
  case (1 us cs c p)
  then have "map (\<lambda>kc. count' (snd kc)) cs = map (\<lambda>kc. length (getNodeUrls (snd kc))) cs"
    by simp
  with 1 show ?case by (simp add: length_concat comp_def)
qed

lemma counts_ok_nodes: "counts_ok r \<Longrightarrow> n \<in> set (nodes r) \<Longrightarrow> counts_ok n"
  by (induction r rule: nodes.induct) auto

lemma counts_ok_formula:
  "counts_ok n \<Longrightarrow> count' n = length (urls n) + sum_list (map (\<lambda>kc. count' (snd kc)) (children n))"
  by (cases n) simp

lemma nodes_distinct:
  "n \<in> set (nodes r) \<Longrightarrow> distinct (getNodeUrls r) \<Longrightarrow> distinct (getNodeUrls n)"
proof (induction r rule: nodes.induct)
  case (1 us cs c p)
  show ?case
  proof (cases "n = TreeNode us cs c p")
    case True
    with 1 show ?thesis by simp
  next
    case False
    with 1 obtain kc where kc: "kc \<in> set cs" "n \<in> set (nodes (snd kc))"
      by auto
    from 1(3) have "distinct (concat (map (\<lambda>kc. getNodeUrls (snd kc)) cs))"
      by simp
    moreover from kc(1) have "getNodeUrls (snd kc) \<in> set (map (\<lambda>kc. getNodeUrls (snd kc)) cs)"
      by simp
    ultimately have "distinct (getNodeUrls (snd kc))"
      by (rule distinct_concat_member)
    with 1(1) [OF kc] show ?thesis .
  qed
qed

lemma buildUrlTree_below:
  "mset (below (buildUrlTree rt us)) = mset (filter (\<lambda>u. parses rt u \<and> plainParts rt u) us)"
proof -
  let ?g = "foldl (groupUrl rt) [] us"
  from foldl_groupUrl [of "[]" rt us]
  have d: "distinct (map fst ?g)"
    and g: "mset (concat (map snd ?g)) = mset (filter (parses rt) us)"
    by simp_all
  have t: "foldl (\<lambda>tree (k, v). put tree k (domainTree rt k v)) [] ?g
             = map (\<lambda>(k, v). (k, domainTree rt k v)) ?g"
    using foldl_put_fresh [OF d, of "[]" "domainTree rt"] by simp
  have u: "below (map (\<lambda>kn. (fst kn, updateCounts (snd kn))) tree) = below tree" for tree
    by (induction tree) (auto simp: getNodeUrls_updateCounts)
  have "mset (below (buildUrlTree rt us)) =
          mset (filter (\<lambda>u. parses rt u \<and> plainParts rt u) (concat (map snd ?g)))"
    by (simp only: buildUrlTree_def Let_def t u below_domainTrees)
  also have "\<dots> = filter_mset (\<lambda>u. parses rt u \<and> plainParts rt u) (mset (concat (map snd ?g)))"
    by (simp only: mset_filter)
  also have "\<dots> = filter_mset (\<lambda>u. parses rt u \<and> plainParts rt u) (mset (filter (parses rt) us))"
    by (simp only: g)
  also have "\<dots> = mset (filter (\<lambda>u. parses rt u \<and> plainParts rt u) us)"
    by (simp only: mset_filter filter_filter_mset) (rule filter_mset_cong, auto)
  finally show ?thesis .
qed

lemma buildUrlTree_roots_ok: "kr \<in> set (buildUrlTree rt us) \<Longrightarrow> counts_ok (snd kr)"
  by (auto simp: buildUrlTree_def Let_def counts_ok_updateCounts)

lemma totalCount_below:
  "(\<forall>kr \<in> set tree. counts_ok (snd kr)) \<Longrightarrow> totalCount tree = length (below tree)"
  by (induction tree) (auto simp: totalCount_def counts_ok_length)

lemma root_distinct:
  assumes "distinct (below tree)" "kr \<in> set tree"
  shows "distinct (getNodeUrls (snd kr))"
proof -
  from assms(2) have "getNodeUrls (snd kr) \<in> set (map (\<lambda>kc. getNodeUrls (snd kc)) tree)"
    by simp
  with assms(1) show ?thesis
    unfolding below_def by (rule distinct_concat_member)
qed

lemma site_tree_total: "totalCount (buildUrlTree browser_runtime site_urls) = 4"
  by code_simp

lemma site_urls_plain: "\<forall>u \<in> set site_urls. plainParts browser_runtime u"
  by code_simp

lemma site_urls_parse: "card {u \<in> set site_urls. parses browser_runtime u} = 4"
proof -
  have "{u \<in> set site_urls. parses browser_runtime u} = set (filter (parses browser_runtime) site_urls)"
    by auto
  also have "filter (parses browser_runtime) site_urls = site_urls"
    by code_simp
  also have "card (set site_urls) = 4"
    by (simp add: site_urls_def)
  finally show ?thesis .
qed

text \<open>
  C5 (as amended). For every list of URLs without repetition, none of which has a path part
  that names a property of \<open>Object.prototype\<close>: in the tree that is built, the count of every
  node is the length of its own \<open>urls\<close> plus the sum of the counts of its children, and it is
  the number of distinct URLs in its subtree; the counts of the roots add up to the number of
  the URLs that parse. A URL that does not parse is skipped.
\<close>

theorem buildUrlTree_counts:
  assumes "distinct us" and "\<forall>u \<in> set us. plainParts rt u"
  shows "(\<forall>kr \<in> set (buildUrlTree rt us). \<forall>n \<in> set (nodes (snd kr)).
            count' n = length (urls n) + sum_list (map (\<lambda>kc. count' (snd kc)) (children n))
            \<and> count' n = card (set (getNodeUrls n)))
         \<and> totalCount (buildUrlTree rt us) = card {u \<in> set us. parses rt u}"
proof -
  from assms(2) have f: "filter (\<lambda>u. parses rt u \<and> plainParts rt u) us = filter (parses rt) us"
    by (auto intro: filter_cong)
  have b: "mset (below (buildUrlTree rt us)) = mset (filter (parses rt) us)"
    using buildUrlTree_below [of rt us] f by simp
  from assms(1) have "distinct (filter (parses rt) us)" by simp
  with mset_eq_imp_distinct_iff [OF b] have db: "distinct (below (buildUrlTree rt us))"
    by simp
  have total: "totalCount (buildUrlTree rt us) = card {u \<in> set us. parses rt u}"
  proof -
    have "totalCount (buildUrlTree rt us) = length (below (buildUrlTree rt us))"
      by (rule totalCount_below) (simp add: buildUrlTree_roots_ok)
    also have "\<dots> = length (filter (parses rt) us)"
      using arg_cong [OF b, of size] by (simp del: mset_filter)
    also have "\<dots> = card {u \<in> set us. parses rt u}"
      using assms(1) distinct_card [of "filter (parses rt) us"] by simp
    finally show ?thesis .
  qed
  have each: "count' n = length (urls n) + sum_list (map (\<lambda>kc. count' (snd kc)) (children n))
              \<and> count' n = card (set (getNodeUrls n))"
    if kr: "kr \<in> set (buildUrlTree rt us)" and n: "n \<in> set (nodes (snd kr))" for kr n
  proof -
    have ok: "counts_ok n"
      using counts_ok_nodes [OF buildUrlTree_roots_ok [OF kr] n] .
    have "distinct (getNodeUrls n)"
      using nodes_distinct [OF n root_distinct [OF db kr]] .
    with counts_ok_length [OF ok] counts_ok_formula [OF ok] show ?thesis
      by (simp add: distinct_card)
  qed
  from each total show ?thesis by blast
qed

theorem buildUrlTree_counts_witness:
  "distinct site_urls
   \<and> totalCount (buildUrlTree browser_runtime site_urls) = 4
   \<and> card {u \<in> set site_urls. parses browser_runtime u} = 4"
proof -
  have d: "distinct site_urls" by (simp add: site_urls_def)
  from buildUrlTree_counts [OF d site_urls_plain] site_urls_parse d show ?thesis
    by simp
qed

text \<open>As stated the claim fails: of two distinct entries one does not parse, and the counts
  of the roots add up to 1.\<close>

theorem buildUrlTree_counterexample:
  "distinct [''https://a.example/x'', ''not a url'']
   \<and> totalCount (buildUrlTree browser_runtime [''https://a.example/x'', ''not a url'']) = 1
   \<and> card (set [''https://a.example/x'', ''not a url'']) = 2"
proof -
  have "totalCount (buildUrlTree browser_runtime [''https://a.example/x'', ''not a url'']) = 1"
    by code_simp
  then show ?thesis by simp
qed

text \<open>A URL with a path part that names an inherited property is in no node either.\<close>

lemma inherited_name_dropped:
  "totalCount (buildUrlTree browser_runtime [''https://a.example/constructor'']) = 0"
  by code_simp

subsection \<open>The Shopify export\<close>




lemma special_chars [simp]:
  "DQ \<noteq> LF" "DQ \<noteq> CR" "DQ \<noteq> CHR '',''" "DQ \<noteq> CHR '' ''"
  "LF \<noteq> DQ" "LF \<noteq> CR" "LF \<noteq> CHR '',''" "LF \<noteq> CHR '' ''"
  "CR \<noteq> DQ" "CR \<noteq> LF" "CR \<noteq> CHR '',''" "CR \<noteq> CHR '' ''"
  "CHR '','' \<noteq> DQ" "CHR '','' \<noteq> LF" "CHR '','' \<noteq> CR"
  "CHR '' '' \<noteq> DQ" "CHR '' '' \<noteq> LF" "CHR '' '' \<noteq> CR"
  by (simp_all add: DQ_def LF_def CR_def)


lemma newlinesToSpaces_no_LF: "LF \<notin> set (newlinesToSpaces s)"
  by (induction s rule: newlinesToSpaces.induct) auto

lemma doubleQuotes_Nil_iff [simp]: "doubleQuotes xs = [] \<longleftrightarrow> xs = []"
  by (cases xs) auto

lemma hd_doubleQuotes [simp]: "hd (doubleQuotes xs) = hd xs"
  by (cases xs) auto

























end
